theory Spec2Isabelle
  imports Complex_Main "HOL-Library.Multiset"
begin

section \<open>Engine values and the engine interface\<close>

text \<open>
  The repository is glue code around a 3D engine: \<^verbatim>\<open>camera.js\<close> and \<^verbatim>\<open>light.js\<close> only call
  the engine's matrix and quaternion routines and read or build 3-vectors. A vector is
  modelled by its three coordinates. JavaScript numbers are modelled by the reals
  (no rounding, no NaN, no signed zero).
\<close>

datatype Vector3 = Vector3 (vx: real) (vy: real) (vz: real)

text \<open>
  The engine routines used by the source, as an interface. \<open>'m\<close> is the engine's matrix
  type and \<open>'q\<close> its quaternion type. \<^verbatim>\<open>decompose(scale, rotation, translation)\<close> fills three
  fresh objects; the model returns them as a triple in the same order.
\<close>

record ('m, 'q) engine =
  Matrix_FromArray :: "real list \<Rightarrow> 'm"
  Matrix_transpose :: "'m \<Rightarrow> 'm"
  Matrix_decompose :: "'m \<Rightarrow> Vector3 \<times> 'q \<times> Vector3"
  Quaternion_toRotationMatrix :: "'q \<Rightarrow> 'm"
  Matrix_RotationY :: "real \<Rightarrow> 'm"
  Matrix_multiply :: "'m \<Rightarrow> 'm \<Rightarrow> 'm"
  Quaternion_FromRotationMatrix :: "'m \<Rightarrow> 'q"
  Quaternion_toEulerAngles :: "'q \<Rightarrow> Vector3"
  Vector3_TransformCoordinates :: "Vector3 \<Rightarrow> 'm \<Rightarrow> Vector3"

section \<open>A reference model of the engine's matrix routines\<close>

text \<open>
  The routines below are the engine's own (they are not part of the repository). They
  are written out after the engine's published implementation, over the reals, so that
  the decoders of the repository can be evaluated on concrete arrays. The engine keeps a
  matrix as 16 numbers \<open>m0 .. m15\<close>, four per row, and keeps the translation in
  \<open>m12, m13, m14\<close>.
\<close>

datatype Quaternion = Quaternion (qx: real) (qy: real) (qz: real) (qw: real)

datatype Matrix = Matrix real real real real  real real real real
                         real real real real  real real real real

text \<open>\<^verbatim>\<open>Matrix.FromArray(array)\<close> copies \<^verbatim>\<open>array[0..15]\<close>. An entry read beyond the end of the
  array is \<^verbatim>\<open>undefined\<close> in the source; here \<open>arr ! i\<close> is unspecified there.\<close>

definition babylon_FromArray :: "real list \<Rightarrow> Matrix" where
  "babylon_FromArray arr =
     Matrix (arr ! 0) (arr ! 1) (arr ! 2) (arr ! 3)
            (arr ! 4) (arr ! 5) (arr ! 6) (arr ! 7)
            (arr ! 8) (arr ! 9) (arr ! 10) (arr ! 11)
            (arr ! 12) (arr ! 13) (arr ! 14) (arr ! 15)"

primrec babylon_transpose :: "Matrix \<Rightarrow> Matrix" where
  "babylon_transpose (Matrix m0 m1 m2 m3 m4 m5 m6 m7 m8 m9 m10 m11 m12 m13 m14 m15) =
     Matrix m0 m4 m8 m12
            m1 m5 m9 m13
            m2 m6 m10 m14
            m3 m7 m11 m15"

primrec babylon_determinant :: "Matrix \<Rightarrow> real" where
  "babylon_determinant (Matrix m00 m01 m02 m03 m10 m11 m12 m13 m20 m21 m22 m23 m30 m31 m32 m33) =
     (let det_22_33 = m22 * m33 - m32 * m23;
          det_21_33 = m21 * m33 - m31 * m23;
          det_21_32 = m21 * m32 - m31 * m22;
          det_20_33 = m20 * m33 - m30 * m23;
          det_20_32 = m20 * m32 - m22 * m30;
          det_20_31 = m20 * m31 - m30 * m21;
          cofact_00 = m11 * det_22_33 - m12 * det_21_33 + m13 * det_21_32;
          cofact_01 = - (m10 * det_22_33 - m12 * det_20_33 + m13 * det_20_32);
          cofact_02 = m10 * det_21_33 - m11 * det_20_33 + m13 * det_20_31;
          cofact_03 = - (m10 * det_21_32 - m11 * det_20_32 + m12 * det_20_31)
      in m00 * cofact_00 + m01 * cofact_01 + m02 * cofact_02 + m03 * cofact_03)"

primrec babylon_FromRotationMatrix :: "Matrix \<Rightarrow> Quaternion" where
  "babylon_FromRotationMatrix (Matrix d0 d1 d2 d3 d4 d5 d6 d7 d8 d9 d10 d11 d12 d13 d14 d15) =
     (let m11 = d0; m12 = d4; m13 = d8;
          m21 = d1; m22 = d5; m23 = d9;
          m31 = d2; m32 = d6; m33 = d10;
          trace = m11 + m22 + m33
      in if trace > 0 then
           (let s = 0.5 / sqrt (trace + 1)
            in Quaternion ((m32 - m23) * s) ((m13 - m31) * s) ((m21 - m12) * s) (0.25 / s))
         else if m11 > m22 \<and> m11 > m33 then
           (let s = 2 * sqrt (1 + m11 - m22 - m33)
            in Quaternion (0.25 * s) ((m12 + m21) / s) ((m13 + m31) / s) ((m32 - m23) / s))
         else if m22 > m33 then
           (let s = 2 * sqrt (1 + m22 - m11 - m33)
            in Quaternion ((m12 + m21) / s) (0.25 * s) ((m23 + m32) / s) ((m13 - m31) / s))
         else
           (let s = 2 * sqrt (1 + m33 - m11 - m22)
            in Quaternion ((m13 + m31) / s) ((m23 + m32) / s) (0.25 * s) ((m21 - m12) / s)))"

text \<open>\<^verbatim>\<open>decompose\<close>: the translation is \<open>(m12, m13, m14)\<close>, the scale is the length of each
  of the first three rows (the second negated when the determinant is not positive), and
  the rotation is read off the rows divided by the scale; a zero scale gives the identity
  quaternion.\<close>

primrec babylon_decompose :: "Matrix \<Rightarrow> Vector3 \<times> Quaternion \<times> Vector3" where
  "babylon_decompose (Matrix m0 m1 m2 m3 m4 m5 m6 m7 m8 m9 m10 m11 m12 m13 m14 m15) =
     (let translation = Vector3 m12 m13 m14;
          sx = sqrt (m0 * m0 + m1 * m1 + m2 * m2);
          sy0 = sqrt (m4 * m4 + m5 * m5 + m6 * m6);
          sz = sqrt (m8 * m8 + m9 * m9 + m10 * m10);
          sy = (if babylon_determinant
                     (Matrix m0 m1 m2 m3 m4 m5 m6 m7 m8 m9 m10 m11 m12 m13 m14 m15) \<le> 0
                then - sy0 else sy0);
          scale = Vector3 sx sy sz
      in if sx = 0 \<or> sy = 0 \<or> sz = 0 then (scale, Quaternion 0 0 0 1, translation)
         else (scale,
               babylon_FromRotationMatrix
                 (Matrix (m0 / sx) (m1 / sx) (m2 / sx) 0
                         (m4 / sy) (m5 / sy) (m6 / sy) 0
                         (m8 / sz) (m9 / sz) (m10 / sz) 0
                         0 0 0 1),
               translation))"

primrec babylon_toRotationMatrix :: "Quaternion \<Rightarrow> Matrix" where
  "babylon_toRotationMatrix (Quaternion x y z w) =
     (let xx = x * x; yy = y * y; zz = z * z;
          xy = x * y; zw = z * w; zx = z * x;
          yw = y * w; yz = y * z; xw = x * w
      in Matrix (1 - 2 * (yy + zz)) (2 * (xy + zw)) (2 * (zx - yw)) 0
                (2 * (xy - zw)) (1 - 2 * (zz + xx)) (2 * (yz + xw)) 0
                (2 * (zx + yw)) (2 * (yz - xw)) (1 - 2 * (yy + xx)) 0
                0 0 0 1)"

definition babylon_RotationY :: "real \<Rightarrow> Matrix" where
  "babylon_RotationY angle =
     (let s = sin angle; c = cos angle
      in Matrix c 0 (- s) 0
                0 1 0 0
                s 0 c 0
                0 0 0 1)"

text \<open>\<^verbatim>\<open>a.multiplyToRef(b, result)\<close> stores the product \<open>a \<times> b\<close>, rows of \<open>a\<close> by columns of \<open>b\<close>.\<close>

primrec babylon_multiply :: "Matrix \<Rightarrow> Matrix \<Rightarrow> Matrix" where
  "babylon_multiply (Matrix a0 a1 a2 a3 a4 a5 a6 a7 a8 a9 a10 a11 a12 a13 a14 a15) other =
     (case other of Matrix b0 b1 b2 b3 b4 b5 b6 b7 b8 b9 b10 b11 b12 b13 b14 b15 \<Rightarrow>
     Matrix (a0 * b0 + a1 * b4 + a2 * b8 + a3 * b12)
            (a0 * b1 + a1 * b5 + a2 * b9 + a3 * b13)
            (a0 * b2 + a1 * b6 + a2 * b10 + a3 * b14)
            (a0 * b3 + a1 * b7 + a2 * b11 + a3 * b15)
            (a4 * b0 + a5 * b4 + a6 * b8 + a7 * b12)
            (a4 * b1 + a5 * b5 + a6 * b9 + a7 * b13)
            (a4 * b2 + a5 * b6 + a6 * b10 + a7 * b14)
            (a4 * b3 + a5 * b7 + a6 * b11 + a7 * b15)
            (a8 * b0 + a9 * b4 + a10 * b8 + a11 * b12)
            (a8 * b1 + a9 * b5 + a10 * b9 + a11 * b13)
            (a8 * b2 + a9 * b6 + a10 * b10 + a11 * b14)
            (a8 * b3 + a9 * b7 + a10 * b11 + a11 * b15)
            (a12 * b0 + a13 * b4 + a14 * b8 + a15 * b12)
            (a12 * b1 + a13 * b5 + a14 * b9 + a15 * b13)
            (a12 * b2 + a13 * b6 + a14 * b10 + a15 * b14)
            (a12 * b3 + a13 * b7 + a14 * b11 + a15 * b15))"

text \<open>\<^verbatim>\<open>Math.atan2(y, x)\<close> over the reals.\<close>

definition Math_atan2 :: "real \<Rightarrow> real \<Rightarrow> real" where
  "Math_atan2 b a =
     (if a > 0 then arctan (b / a)
      else if a < 0 then (if b \<ge> 0 then arctan (b / a) + pi else arctan (b / a) - pi)
      else if b > 0 then pi / 2
      else if b < 0 then - (pi / 2)
      else 0)"

primrec babylon_toEulerAngles :: "Quaternion \<Rightarrow> Vector3" where
  "babylon_toEulerAngles (Quaternion x y z w) =
     (let zAxisY = y * z - x * w;
          limit = 0.4999999
      in if zAxisY < - limit then Vector3 (pi / 2) (2 * Math_atan2 y w) 0
         else if zAxisY > limit then Vector3 (- (pi / 2)) (2 * Math_atan2 y w) 0
         else
           (let sqw = w * w; sqz = z * z; sqx = x * x; sqy = y * y
            in Vector3 (arcsin (- 2 * zAxisY))
                       (Math_atan2 (2 * (z * x + y * w)) (sqz - sqx - sqy + sqw))
                       (Math_atan2 (2 * (x * y + z * w)) (- sqz - sqx + sqy + sqw))))"

primrec babylon_TransformCoordinates :: "Vector3 \<Rightarrow> Matrix \<Rightarrow> Vector3" where
  "babylon_TransformCoordinates (Vector3 x y z) transformation =
     (case transformation of Matrix m0 m1 m2 m3 m4 m5 m6 m7 m8 m9 m10 m11 m12 m13 m14 m15 \<Rightarrow>
      let rx = x * m0 + y * m4 + z * m8 + m12;
          ry = x * m1 + y * m5 + z * m9 + m13;
          rz = x * m2 + y * m6 + z * m10 + m14;
          rw = 1 / (x * m3 + y * m7 + z * m11 + m15)
      in Vector3 (rx * rw) (ry * rw) (rz * rw))"

definition babylon :: "(Matrix, Quaternion) engine" where
  "babylon =
     \<lparr> Matrix_FromArray = babylon_FromArray,
       Matrix_transpose = babylon_transpose,
       Matrix_decompose = babylon_decompose,
       Quaternion_toRotationMatrix = babylon_toRotationMatrix,
       Matrix_RotationY = babylon_RotationY,
       Matrix_multiply = babylon_multiply,
       Quaternion_FromRotationMatrix = babylon_FromRotationMatrix,
       Quaternion_toEulerAngles = babylon_toEulerAngles,
       Vector3_TransformCoordinates = babylon_TransformCoordinates \<rparr>"

section \<open>Thrown values and the console\<close>

text \<open>
  A thrown or rejected value, with the text of its \<^verbatim>\<open>message\<close> property. \<open>RejectedTask\<close> is
  an asset task of the engine handed to \<^verbatim>\<open>reject\<close>; it has no \<^verbatim>\<open>message\<close> property.
\<close>

datatype js_error = Error string | TypeError string | SyntaxError string | RejectedTask string

primrec message :: "js_error \<Rightarrow> string" where
  "message (Error m) = m"
| "message (TypeError m) = m"
| "message (SyntaxError m) = m"
| "message (RejectedTask n) = ''undefined''"

datatype consoleLine = ConsoleLog string | ConsoleError string

section \<open>camera.js\<close>

text \<open>JavaScript's \<^verbatim>\<open>a || b\<close> on an optional string, number or boolean: a missing field, the
  empty string, zero and false are falsy.\<close>

definition str_or :: "string option \<Rightarrow> string \<Rightarrow> string" where
  "str_or a d = (case a of None \<Rightarrow> d | Some s \<Rightarrow> if s = [] then d else s)"

definition num_or :: "real option \<Rightarrow> real \<Rightarrow> real" where
  "num_or a d = (case a of None \<Rightarrow> d | Some r \<Rightarrow> if r = 0 then d else r)"

definition bool_or_false :: "bool option \<Rightarrow> bool" where
  "bool_or_false a = (case a of None \<Rightarrow> False | Some b \<Rightarrow> b)"

text \<open>
  A camera entry of the manifest. A field that the entry does not have is \<open>None\<close>. The
  \<^verbatim>\<open>matrix\<close> field, when the entry has it, holds \<^verbatim>\<open>null\<close> or an array of numbers (other JSON
  values are not modelled); \<^verbatim>\<open>null\<close> is falsy, an array is truthy, also the empty one.
\<close>

datatype matrixValue = MatrixNull | MatrixArray "real list"

record cameraData =
  cd_name :: "string option"
  cd_matrix :: "matrixValue option"
  cd_checkCollisions :: "bool option"
  cd_applyGravity :: "bool option"

text \<open>The properties of the engine's camera object that \<^verbatim>\<open>camera.js\<close> reads or writes.\<close>

record camera =
  cam_name :: string
  cam_position :: Vector3
  cam_rotation :: Vector3
  cam_attached :: bool
  cam_speed :: real
  cam_inertia :: real
  cam_angularSensibility :: real
  cam_keysUp :: "nat list"
  cam_keysDown :: "nat list"
  cam_keysLeft :: "nat list"
  cam_keysRight :: "nat list"
  cam_keysUpward :: "nat list"
  cam_keysDownward :: "nat list"
  cam_checkCollisions :: bool
  cam_applyGravity :: bool
  cam_ellipsoid :: Vector3

definition applyTransformation :: "('m, 'q) engine \<Rightarrow> camera \<Rightarrow> real list \<Rightarrow> camera" where
  "applyTransformation E camera matrix =
     (let babylonMatrix = Matrix_transpose E (Matrix_FromArray E matrix);
          (scale, rotationQuat, position) = Matrix_decompose E babylonMatrix;
          camera = camera\<lparr>cam_position := Vector3 (- vx position) (vy position) (vz position)\<rparr>;
          rotationMatrix = Quaternion_toRotationMatrix E rotationQuat;
          convertMatrix = Matrix_RotationY E pi;
          finalRotMatrix = Matrix_multiply E convertMatrix rotationMatrix;
          finalQuat = Quaternion_FromRotationMatrix E finalRotMatrix;
          euler = Quaternion_toEulerAngles E finalQuat
      in camera\<lparr>cam_rotation := Vector3 (vx euler) (- vy euler) (vz euler)\<rparr>)"

text \<open>
  What \<^verbatim>\<open>setupCamera\<close> meets outside the repository: the engine's constructor
  \<^verbatim>\<open>new BABYLON.UniversalCamera(name, position, scene)\<close>, which supplies the engine's defaults
  for every property or throws; the engine's \<^verbatim>\<open>camera.attachControl(canvas, true)\<close>, which
  may throw; and the canvas, which is \<^verbatim>\<open>null\<close> when the page has no such element.
\<close>

record cameraHost =
  new_UniversalCamera :: "string \<Rightarrow> Vector3 \<Rightarrow> js_error + camera"
  attachControl :: "camera \<Rightarrow> js_error option"
  canvasExists :: bool

text \<open>The part of the browser that \<^verbatim>\<open>camera.js\<close> writes to: the console, and the event
  listeners registered so far, each as its target and its event.\<close>

record browser =
  br_console :: "consoleLine list"
  br_listeners :: "(string \<times> string) list"

text \<open>
  \<^verbatim>\<open>setupCameraEnhancements(camera, canvas)\<close> registers three listeners on \<^verbatim>\<open>window\<close>, one on
  the canvas and three on \<^verbatim>\<open>document\<close>. \<^verbatim>\<open>canvas.addEventListener\<close> throws a type error when
  the canvas is \<^verbatim>\<open>null\<close>; the listeners on \<^verbatim>\<open>window\<close> are registered by then. The handlers
  themselves only run on later user input.
\<close>

definition setupCameraEnhancements :: "cameraHost \<Rightarrow> browser \<Rightarrow> js_error option \<times> browser" where
  "setupCameraEnhancements W b =
     (let b = b\<lparr>br_listeners := br_listeners b @
                  [(''window'', ''keydown''), (''window'', ''keyup''), (''window'', ''keydown'')]\<rparr>
      in if canvasExists W then
           (None, b\<lparr>br_listeners := br_listeners b @
                      [(''canvas'', ''click''),
                       (''document'', ''pointerlockchange''),
                       (''document'', ''mozpointerlockchange''),
                       (''document'', ''webkitpointerlockchange'')]\<rparr>)
         else
           (Some (TypeError ''Cannot read properties of null (reading addEventListener)''), b))"

text \<open>
  \<^verbatim>\<open>setupCamera(scene, canvas, cameraData)\<close>. The result is the camera that is returned, or
  the exception that is thrown, together with the browser as the call leaves it. The
  test \<^verbatim>\<open>if (cameraData.matrix)\<close> is a test of truthiness.
\<close>

definition setupCamera ::
  "('m, 'q) engine \<Rightarrow> cameraHost \<Rightarrow> cameraData \<Rightarrow> browser \<Rightarrow> (js_error + camera) \<times> browser"
  where
  "setupCamera E W cameraData b =
     (let b = b\<lparr>br_console := br_console b @
                  [ConsoleLog (''Creating camera: '' @
                     str_or (cd_name cameraData) ''Universal Camera'')]\<rparr>
      in case new_UniversalCamera W (str_or (cd_name cameraData) ''MainCamera'') (Vector3 0 0 0) of
           Inl e \<Rightarrow> (Inl e, b)
         | Inr camera \<Rightarrow>
             (let camera = (case cd_matrix cameraData of
                              Some (MatrixArray matrix) \<Rightarrow> applyTransformation E camera matrix
                            | _ \<Rightarrow> camera\<lparr>cam_position := Vector3 0 2 (- 10),
                                            cam_rotation := Vector3 0 0 0\<rparr>)
              in case attachControl W camera of
                   Some e \<Rightarrow> (Inl e, b)
                 | None \<Rightarrow>
                     (let camera = camera\<lparr>cam_attached := True\<rparr>;
                          camera = camera\<lparr>cam_speed := 2, cam_inertia := 0.7,
                                          cam_angularSensibility := 2000\<rparr>;
                          camera = camera\<lparr>cam_keysUp := cam_keysUp camera @ [87]\<rparr>;
                          camera = camera\<lparr>cam_keysDown := cam_keysDown camera @ [83]\<rparr>;
                          camera = camera\<lparr>cam_keysLeft := cam_keysLeft camera @ [65]\<rparr>;
                          camera = camera\<lparr>cam_keysRight := cam_keysRight camera @ [68]\<rparr>;
                          camera = camera\<lparr>cam_keysUpward := [69], cam_keysDownward := [81]\<rparr>;
                          camera = camera\<lparr>cam_checkCollisions :=
                                            bool_or_false (cd_checkCollisions cameraData),
                                          cam_applyGravity :=
                                            bool_or_false (cd_applyGravity cameraData),
                                          cam_ellipsoid := Vector3 1 1 1\<rparr>
                      in case setupCameraEnhancements W b of
                           (Some e, b) \<Rightarrow> (Inl e, b)
                         | (None, b) \<Rightarrow> (Inr camera, b))))"

section \<open>light.js\<close>

text \<open>A light entry of the manifest; a field that the entry does not have is \<open>None\<close>.\<close>

record lightData =
  ld_name :: "string option"
  ld_type :: "string option"
  ld_matrix :: "real list option"
  ld_color :: "real list option"
  ld_intensity :: "real option"
  ld_range :: "real option"
  ld_angle :: "real option"
  ld_exponent :: "real option"
  ld_castShadows :: "bool option"

datatype Color3 = Color3 real real real

datatype lightClass = PointLight | SpotLight | DirectionalLight | HemisphericLight

text \<open>The shadow generator that \<^verbatim>\<open>createDirectionalLight\<close> builds: the map size, the names
  of the meshes pushed on its render list, and the two quality settings.\<close>

record shadowGenerator =
  sg_mapSize :: nat
  sg_renderList :: "string list"
  sg_usePercentageCloserFiltering :: bool
  sg_bias :: real

text \<open>
  An engine light, as far as \<^verbatim>\<open>light.js\<close> determines it: its class, the constructor
  arguments, and the properties assigned afterwards. A property is \<open>None\<close> when the code
  neither passes it to the constructor nor assigns it, so that the engine's default stays.
\<close>

record light =
  light_class :: lightClass
  light_name :: string
  light_position :: "Vector3 option"
  light_direction :: "Vector3 option"
  light_angle :: "real option"
  light_exponent :: "real option"
  light_diffuse :: "Color3 option"
  light_specular :: "Color3 option"
  light_intensity :: "real option"
  light_range :: "real option"
  light_shadowGenerator :: "shadowGenerator option"

record mesh =
  mesh_name :: string
  mesh_receiveShadows :: bool

definition getPositionFromMatrix :: "('m, 'q) engine \<Rightarrow> real list \<Rightarrow> Vector3" where
  "getPositionFromMatrix E matrix =
     (let babylonMatrix = Matrix_transpose E (Matrix_FromArray E matrix);
          (scale, rotationQuat, position) = Matrix_decompose E babylonMatrix
      in position)"

definition getPositionAndDirectionFromMatrix ::
  "('m, 'q) engine \<Rightarrow> real list \<Rightarrow> Vector3 \<times> Vector3" where
  "getPositionAndDirectionFromMatrix E matrix =
     (let babylonMatrix = Matrix_transpose E (Matrix_FromArray E matrix);
          (scale, rotationQuat, position) = Matrix_decompose E babylonMatrix;
          rotationMatrix = Quaternion_toRotationMatrix E rotationQuat;
          forward = Vector3 0 0 (- 1);
          direction = Vector3_TransformCoordinates E forward rotationMatrix
      in (position, direction))"

text \<open>The three assignments that the light constructors share.\<close>

definition applyColor :: "lightData \<Rightarrow> light \<Rightarrow> light" where
  "applyColor lightData light =
     (case ld_color lightData of
        None \<Rightarrow> light
      | Some color \<Rightarrow>
          light\<lparr>light_diffuse := Some (Color3 (color ! 0) (color ! 1) (color ! 2)),
                light_specular := Some (Color3 (color ! 0) (color ! 1) (color ! 2))\<rparr>)"

definition applyIntensity :: "lightData \<Rightarrow> light \<Rightarrow> light" where
  "applyIntensity lightData light =
     (case ld_intensity lightData of
        None \<Rightarrow> light
      | Some intensity \<Rightarrow> light\<lparr>light_intensity := Some intensity\<rparr>)"

definition applyPositionAndDirection :: "('m, 'q) engine \<Rightarrow> lightData \<Rightarrow> light \<Rightarrow> light" where
  "applyPositionAndDirection E lightData light =
     (case ld_matrix lightData of
        None \<Rightarrow> light
      | Some matrix \<Rightarrow>
          (let (position, direction) = getPositionAndDirectionFromMatrix E matrix
           in light\<lparr>light_position :=
                        Some (Vector3 (- vx position) (vy position) (vz position)),
                      light_direction :=
                        Some (Vector3 (- vx direction) (vy direction) (vz direction))\<rparr>))"

definition newLight :: "lightClass \<Rightarrow> string \<Rightarrow> light" where
  "newLight c name =
     \<lparr> light_class = c, light_name = name, light_position = None, light_direction = None,
       light_angle = None, light_exponent = None, light_diffuse = None,
       light_specular = None, light_intensity = None, light_range = None,
       light_shadowGenerator = None \<rparr>"

definition createPointLight :: "('m, 'q) engine \<Rightarrow> lightData \<Rightarrow> light" where
  "createPointLight E lightData =
     (let light = (newLight PointLight (str_or (ld_name lightData) ''pointLight''))
                    \<lparr>light_position := Some (Vector3 0 0 0)\<rparr>;
          light = (case ld_matrix lightData of
                     None \<Rightarrow> light
                   | Some matrix \<Rightarrow>
                       (let position = getPositionFromMatrix E matrix
                        in light\<lparr>light_position :=
                             Some (Vector3 (- vx position) (vy position) (vz position))\<rparr>));
          light = applyColor lightData light;
          light = applyIntensity lightData light
      in case ld_range lightData of
           None \<Rightarrow> light
         | Some lightRange \<Rightarrow>
             if lightRange = 0 then light else light\<lparr>light_range := Some lightRange\<rparr>)"

definition createSpotLight :: "('m, 'q) engine \<Rightarrow> lightData \<Rightarrow> light" where
  "createSpotLight E lightData =
     (let light = (newLight SpotLight (str_or (ld_name lightData) ''spotLight''))
                    \<lparr>light_position := Some (Vector3 0 0 0),
                     light_direction := Some (Vector3 0 0 (- 1)),
                     light_angle := Some (num_or (ld_angle lightData) (pi / 4)),
                     light_exponent := Some (num_or (ld_exponent lightData) 2)\<rparr>;
          light = applyPositionAndDirection E lightData light;
          light = applyColor lightData light
      in applyIntensity lightData light)"

text \<open>\<^verbatim>\<open>mesh.name.includes("skyBox")\<close>: the name has the given text somewhere inside.\<close>

primrec str_includes :: "string \<Rightarrow> string \<Rightarrow> bool" where
  "str_includes [] sub = (sub = [])"
| "str_includes (c # cs) sub = (take (length sub) (c # cs) = sub \<or> str_includes cs sub)"

text \<open>\<^verbatim>\<open>createDirectionalLight(scene, lightData)\<close> changes the meshes of the scene when it
  builds a shadow generator, so the model returns the light and the meshes.\<close>

definition createDirectionalLight ::
  "('m, 'q) engine \<Rightarrow> mesh list \<Rightarrow> lightData \<Rightarrow> light \<times> mesh list" where
  "createDirectionalLight E meshes lightData =
     (let light = (newLight DirectionalLight (str_or (ld_name lightData) ''directionalLight''))
                    \<lparr>light_direction := Some (Vector3 0 (- 1) 0)\<rparr>;
          light = applyPositionAndDirection E lightData light;
          light = applyColor lightData light;
          light = applyIntensity lightData light
      in if bool_or_false (ld_castShadows lightData) then
           (let casters = filter (\<lambda>mesh. \<not> str_includes (mesh_name mesh) ''skyBox'') meshes;
                shadowGenerator =
                  \<lparr> sg_mapSize = 1024,
                    sg_renderList = map mesh_name casters,
                    sg_usePercentageCloserFiltering = True,
                    sg_bias = 0.00001 \<rparr>
            in (light\<lparr>light_shadowGenerator := Some shadowGenerator\<rparr>,
                map (\<lambda>mesh. if str_includes (mesh_name mesh) ''skyBox'' then mesh
                             else mesh\<lparr>mesh_receiveShadows := True\<rparr>) meshes))
         else (light, meshes))"

definition setupLights ::
  "('m, 'q) engine \<Rightarrow> mesh list \<Rightarrow> lightData \<Rightarrow> light \<times> mesh list" where
  "setupLights E meshes lightData =
     (if ld_type lightData = Some ''POINT'' then (createPointLight E lightData, meshes)
      else if ld_type lightData = Some ''SPOT'' then (createSpotLight E lightData, meshes)
      else if ld_type lightData = Some ''SUN'' \<or> ld_type lightData = Some ''DIRECTIONAL''
        then createDirectionalLight E meshes lightData
      else ((newLight HemisphericLight (str_or (ld_name lightData) ''defaultLight''))
              \<lparr>light_direction := Some (Vector3 0 1 0)\<rparr>, meshes))"

section \<open>Statements and the state of a run\<close>

text \<open>
  A statement runs on a state and ends normally (\<open>None\<close>) or by throwing (\<open>Some e\<close>); the
  changes it made before throwing stay. \<open>seq\<close> runs statements one after the other and
  stops at the first that throws, as a JavaScript block does (an \<^verbatim>\<open>await\<close> of a rejected
  promise throws the rejection value). \<open>forEach\<close> is \<^verbatim>\<open>Array.prototype.forEach\<close>.
\<close>

type_synonym 's stmt = "'s \<Rightarrow> js_error option \<times> 's"

definition stmt :: "('s \<Rightarrow> 's) \<Rightarrow> 's stmt" where
  "stmt f s = (None, f s)"

primrec seq :: "'s stmt list \<Rightarrow> 's stmt" where
  "seq [] s = (None, s)"
| "seq (f # fs) s = (case f s of (Some e, s') \<Rightarrow> (Some e, s') | (None, s') \<Rightarrow> seq fs s')"

primrec forEach :: "('a \<Rightarrow> 's stmt) \<Rightarrow> 'a list \<Rightarrow> 's stmt" where
  "forEach f [] s = (None, s)"
| "forEach f (a # as) s =
     (case f a s of (Some e, s') \<Rightarrow> (Some e, s') | (None, s') \<Rightarrow> forEach f as s')"

text \<open>Decimal rendering of a number inside a template string.\<close>

fun decimal :: "nat \<Rightarrow> string" where
  "decimal n = (if n < 10 then [''0123456789'' ! n]
                else decimal (n div 10) @ [''0123456789'' ! (n mod 10)])"

declare decimal.simps [simp del]

definition render_int :: "int \<Rightarrow> string" where
  "render_int i = (if i < 0 then ''-'' @ decimal (nat (- i)) else decimal (nat i))"

text \<open>A value in a template string: a missing property renders as \<^verbatim>\<open>undefined\<close>.\<close>

definition render :: "string option \<Rightarrow> string" where
  "render a = (case a of None \<Rightarrow> ''undefined'' | Some t \<Rightarrow> t)"

text \<open>
  The project manifest as far as \<^verbatim>\<open>app.js\<close> and \<^verbatim>\<open>Scene.loadAssets\<close> read it. A parsed
  document is a manifest object or \<^verbatim>\<open>null\<close> (\<open>None\<close>).
\<close>

record sceneData =
  sd_glb_groups :: "string list option"

record manifest =
  mf_scenes :: "sceneData list option"

record projectData =
  pd_name :: "string option"
  pd_debug :: "bool option"
  pd_manifest :: "manifest option"

text \<open>An asset descriptor; each property may be missing.\<close>

record asset =
  a_type :: "string option"
  a_name :: "string option"
  a_url :: "string option"

text \<open>The tasks of the engine's assets manager, with the arguments they were added with.\<close>

datatype assetTask =
    MeshTask "string option" string string string
  | TextureTask "string option" "string option"
  | BinaryFileTask "string option" "string option"
  | CubeTextureTask "string option" "string option"

datatype scenePhase = Environment | Camera | Assets | Lights | Interaction

text \<open>
  The calls that the engine's assets manager makes, while it loads, on the handlers that
  \<^verbatim>\<open>assetManager.js\<close> has installed.
  \<^item> \<open>ModelLoaded name n groups\<close>: the \<^verbatim>\<open>onSuccess\<close> of the mesh task called \<open>name\<close>, which
    has loaded \<open>n\<close> meshes and animation groups with the names \<open>groups\<close>;
    \<open>TextureLoaded\<close>, \<open>AudioLoaded\<close> and \<open>HDRLoaded\<close>: the \<^verbatim>\<open>onSuccess\<close> of a task of another
    kind;
  \<^item> \<open>Report remainingCount totalCount\<close>: \<^verbatim>\<open>onProgress\<close>;
  \<^item> \<open>TaskOnError name message\<close>: the \<^verbatim>\<open>onError\<close> of the mesh task called \<open>name\<close> (a task of
    another kind gets no such handler); \<open>ManagerOnTaskError name message\<close>: \<^verbatim>\<open>onTaskError\<close>,
    for the task called \<open>name\<close>;
  \<^item> \<open>Finish\<close>: \<^verbatim>\<open>onFinish\<close>.

  A name or a message that is \<^verbatim>\<open>undefined\<close> is \<open>None\<close>. The calls that leave the promise of
  \<^verbatim>\<open>Scene.loadAssets\<close> pending are the \<open>quietCall\<close>s; each \<open>errorCall\<close> rejects it, and
  \<open>Finish\<close> resolves it, unless it has settled before.
\<close>

datatype successCall =
    ModelLoaded "string option" nat "string list"
  | TextureLoaded "string option"
  | AudioLoaded "string option"
  | HDRLoaded "string option"

datatype quietCall = Success successCall | Report nat nat

datatype errorCall =
    TaskOnError "string option" "string option"
  | ManagerOnTaskError "string option" "string option"

datatype engineCall = Quiet quietCall | Failure errorCall | Finish

text \<open>
  The state that a run of the application changes.
  \<^item> \<open>console\<close>: the lines written by \<^verbatim>\<open>log\<close> and \<^verbatim>\<open>console.error\<close>, without the time stamp;
  \<^item> \<open>loadingCalls\<close>: the calls of \<^verbatim>\<open>updateLoadingProgress(percent, message)\<close>, oldest first;
  \<^item> \<open>progressWidth\<close>: the width of the element \<^verbatim>\<open>#loadingProgress\<close>, \<open>None\<close> when the page has
    no such element;
  \<^item> \<open>loadingText\<close>: the text of the first \<^verbatim>\<open>div\<close> inside \<^verbatim>\<open>#loadingScreen\<close>; \<open>None\<close> when there
    is no \<^verbatim>\<open>#loadingScreen\<close>, \<open>Some None\<close> when it has no \<^verbatim>\<open>div\<close>;
  \<^item> \<open>assetTasks\<close>: the queue of the engine's assets manager, \<open>loadStarted\<close>: its \<^verbatim>\<open>load()\<close>
    was called;
  \<^item> \<open>phaseLog\<close>: the phases of \<^verbatim>\<open>Scene.initialize\<close> that were run, each with how it ended;
  \<^item> \<open>pending\<close>: the calls that the assets manager will still make on the handlers in later
    turns of the event loop, after the code that awaits the load has run on;
  \<^item> \<open>world\<close>: the engine and its scene graph.
\<close>

record 'w runtime =
  console :: "consoleLine list"
  loadingCalls :: "(int \<times> string) list"
  progressWidth :: "string option"
  loadingText :: "string option option"
  documentTitle :: string
  projectData :: "projectData option"
  debugMode :: bool
  assetTasks :: "assetTask list"
  loadStarted :: bool
  phaseLog :: "(scenePhase \<times> js_error option) list"
  pending :: "engineCall list"
  world :: 'w

section \<open>utility.js\<close>

definition log :: "string \<Rightarrow> bool \<Rightarrow> 'w runtime \<Rightarrow> 'w runtime" where
  "log msg isError s =
     s\<lparr>console := console s @
          [if isError then ConsoleError (''[ERROR] '' @ msg) else ConsoleLog msg]\<rparr>"

text \<open>What \<^verbatim>\<open>fetch(url)\<close> and the \<^verbatim>\<open>text()\<close> of its response do in a run.\<close>

datatype bodyOutcome = TextRejects js_error | Text string

datatype fetchOutcome = FetchRejects js_error | Response bool nat bodyOutcome

text \<open>
  One load of the assets manager, as the handlers see it: the calls \<open>before\<close> the promise
  of \<^verbatim>\<open>Scene.loadAssets\<close> settles, and the call that settles it.
  \<^item> \<open>OnFinish\<close>: \<^verbatim>\<open>onFinish\<close> resolves it; this is the last call that the assets manager
    makes in a load.
  \<^item> \<open>OnError call sameTurn laterTurns\<close>: the error handler \<open>call\<close> rejects it, and the assets
    manager goes on. \<open>sameTurn\<close> are the calls that it makes before the awaiting code
    continues (such as \<^verbatim>\<open>onTaskError\<close> after the \<^verbatim>\<open>onError\<close> of the task, the report of the
    failed task, and \<^verbatim>\<open>onFinish\<close> when no other task is waiting); \<open>laterTurns\<close> are the calls
    that it makes afterwards, as the other tasks end.
\<close>

datatype loadEnding = OnFinish | OnError errorCall "engineCall list" "engineCall list"

record loadRun =
  before :: "quietCall list"
  ending :: loadEnding

text \<open>
  The browser and the engine, as one run meets them: the outcome of \<^verbatim>\<open>fetch\<close>, the result
  of \<^verbatim>\<open>JSON.parse\<close>, the engine constructors, the bodies of the scene phases (they build
  engine objects from the manifest and may throw), the starting of the render loop, and
  what the assets manager does in a load of the tasks in its queue.
\<close>

record 'w host =
  fetch :: "string \<Rightarrow> fetchOutcome"
  JSON_parse :: "string \<Rightarrow> js_error + projectData option"
  new_Engine :: "'w \<Rightarrow> js_error option \<times> 'w"
  new_Scene :: "'w \<Rightarrow> js_error option \<times> 'w"
  phaseBody :: "scenePhase \<Rightarrow> projectData option \<Rightarrow> 'w \<Rightarrow> js_error option \<times> 'w"
  assetsManager_load :: "assetTask list \<Rightarrow> 'w \<Rightarrow> loadRun \<times> 'w"
  runRenderLoop :: "bool \<Rightarrow> 'w \<Rightarrow> js_error option \<times> 'w"

text \<open>\<^verbatim>\<open>loadJSON(url)\<close>: the whole body is inside \<^verbatim>\<open>try\<close>, and the \<^verbatim>\<open>catch\<close> logs and returns
  \<^verbatim>\<open>null\<close>. The result is the returned value and the state.\<close>

definition loadJSON ::
  "'w host \<Rightarrow> string \<Rightarrow> 'w runtime \<Rightarrow> projectData option \<times> 'w runtime" where
  "loadJSON H url s =
     (let attempt =
            (case fetch H url of
               FetchRejects e \<Rightarrow> Inl e
             | Response ok status body \<Rightarrow>
                 if \<not> ok then Inl (Error (''HTTP error! Status: '' @ decimal status))
                 else (case body of
                         TextRejects e \<Rightarrow> Inl e
                       | Text text \<Rightarrow> JSON_parse H text))
      in case attempt of
           Inl error \<Rightarrow>
             (None, log (''Failed to load JSON from '' @ url @ '': '' @ message error) True s)
         | Inr parsed \<Rightarrow> (parsed, s))"

section \<open>assetManager.js\<close>

text \<open>\<^verbatim>\<open>url.lastIndexOf('/')\<close> and \<^verbatim>\<open>url.substring(start, end)\<close>.\<close>

definition lastIndexOf :: "string \<Rightarrow> char \<Rightarrow> int" where
  "lastIndexOf t c =
     (case filter (\<lambda>i. t ! i = c) (rev [0..<length t]) of [] \<Rightarrow> - 1 | i # _ \<Rightarrow> int i)"

definition substring :: "string \<Rightarrow> int \<Rightarrow> int \<Rightarrow> string" where
  "substring t start finish =
     (let n = int (length t);
          a = max 0 (min start n);
          b = max 0 (min finish n)
      in take (nat (max a b - min a b)) (drop (nat (min a b)) t))"

definition addModelTask :: "asset \<Rightarrow> 'w runtime stmt" where
  "addModelTask asset s =
     (let s = log (''Loading model: '' @ render (a_url asset)) False s
      in case a_url asset of
           None \<Rightarrow>
             (Some (TypeError ''Cannot read properties of undefined (reading substring)''), s)
         | Some url \<Rightarrow>
             (None, s\<lparr>assetTasks := assetTasks s @
                [MeshTask (a_name asset) []
                   (substring url 0 (lastIndexOf url CHR ''/'' + 1))
                   (substring url (lastIndexOf url CHR ''/'' + 1) (int (length url)))]\<rparr>))"

definition addTextureTask :: "asset \<Rightarrow> 'w runtime stmt" where
  "addTextureTask asset s =
     (let s = log (''Loading texture: '' @ render (a_url asset)) False s
      in (None, s\<lparr>assetTasks := assetTasks s @ [TextureTask (a_name asset) (a_url asset)]\<rparr>))"

definition addAudioTask :: "asset \<Rightarrow> 'w runtime stmt" where
  "addAudioTask asset s =
     (let s = log (''Loading audio: '' @ render (a_url asset)) False s
      in (None, s\<lparr>assetTasks := assetTasks s @ [BinaryFileTask (a_name asset) (a_url asset)]\<rparr>))"

definition addHDRTask :: "asset \<Rightarrow> 'w runtime stmt" where
  "addHDRTask asset s =
     (let s = log (''Loading HDR: '' @ render (a_url asset)) False s
      in (None, s\<lparr>assetTasks := assetTasks s @ [CubeTextureTask (a_name asset) (a_url asset)]\<rparr>))"

definition addAssetTask :: "asset \<Rightarrow> 'w runtime stmt" where
  "addAssetTask asset s =
     (if a_type asset = Some ''model'' then addModelTask asset s
      else if a_type asset = Some ''texture'' then addTextureTask asset s
      else if a_type asset = Some ''audio'' then addAudioTask asset s
      else if a_type asset = Some ''hdr'' then addHDRTask asset s
      else (None, log (''Unsupported asset type: '' @ render (a_type asset)) True s))"

text \<open>
  \<^verbatim>\<open>AssetManager.loadAssets(assetList, onLoaded, onProgress, onError)\<close>: the three callbacks
  are kept for the handlers below, the queue of the assets manager is reset, a task is
  added for each asset, and the engine is told to load. The handlers take the callback
  they would read from the object as an argument.
\<close>

definition AssetManager_loadAssets :: "asset list \<Rightarrow> 'w runtime stmt" where
  "AssetManager_loadAssets assetList =
     seq [stmt (\<lambda>s. s\<lparr>assetTasks := []\<rparr>),
          forEach addAssetTask assetList,
          stmt (\<lambda>s. s\<lparr>loadStarted := True\<rparr>)]"

text \<open>
  The handlers that \<^verbatim>\<open>addModelTask\<close>, \<^verbatim>\<open>addTextureTask\<close>, \<^verbatim>\<open>addAudioTask\<close> and \<^verbatim>\<open>addHDRTask\<close>
  put on the task they have added. What a handler does to the scene of the engine
  (\<^verbatim>\<open>scene.addMesh\<close>, \<^verbatim>\<open>mesh.receiveShadows\<close>, \<^verbatim>\<open>scene[asset.name]\<close>,
  \<^verbatim>\<open>scene.environmentTexture\<close>) is part of the world that the load leaves. The \<^verbatim>\<open>onError\<close> of a
  mesh task logs and calls the error callback, which rejects the promise.
\<close>

definition meshTask_onSuccess ::
  "string option \<Rightarrow> nat \<Rightarrow> string list \<Rightarrow> 'w runtime \<Rightarrow> 'w runtime" where
  "meshTask_onSuccess name loadedMeshes loadedAnimationGroups s =
     fold (\<lambda>mesh. fold (\<lambda>animGroup. log (''Animation group loaded: '' @ animGroup) False)
                     loadedAnimationGroups)
       [0..<loadedMeshes]
       (log (''Model loaded: '' @ render name) False s)"

definition meshTask_onError :: "string option \<Rightarrow> string option \<Rightarrow> 'w runtime \<Rightarrow> 'w runtime" where
  "meshTask_onError name msg s =
     log (''Failed to load model: '' @ render name @ '' - '' @ render msg) True s"

definition textureTask_onSuccess :: "string option \<Rightarrow> 'w runtime \<Rightarrow> 'w runtime" where
  "textureTask_onSuccess name s = log (''Texture loaded: '' @ render name) False s"

definition audioTask_onSuccess :: "string option \<Rightarrow> 'w runtime \<Rightarrow> 'w runtime" where
  "audioTask_onSuccess name s = log (''Audio loaded: '' @ render name) False s"

definition hdrTask_onSuccess :: "string option \<Rightarrow> 'w runtime \<Rightarrow> 'w runtime" where
  "hdrTask_onSuccess name s = log (''HDR loaded: '' @ render name) False s"

text \<open>\<^verbatim>\<open>onFinish(tasks)\<close> logs and calls the loaded callback, which resolves the promise;
  \<^verbatim>\<open>onTaskError(task, message, exception)\<close> logs and calls the error callback, which rejects
  it.\<close>

definition AssetManager_onFinish :: "'w runtime \<Rightarrow> 'w runtime" where
  "AssetManager_onFinish s = log ''All assets loaded'' False s"

definition AssetManager_onTaskError :: "string option \<Rightarrow> 'w runtime \<Rightarrow> 'w runtime" where
  "AssetManager_onTaskError msg s = log (''Error loading asset: '' @ render msg) True s"

text \<open>\<^verbatim>\<open>onProgress(remainingCount, totalCount, lastFinishedTask)\<close>. The engine calls it after a
  task has finished, so \<open>totalCount\<close> is not zero.\<close>

definition AssetManager_onProgress ::
  "(real \<Rightarrow> 's \<Rightarrow> 's) option \<Rightarrow> nat \<Rightarrow> nat \<Rightarrow> 's \<Rightarrow> 's" where
  "AssetManager_onProgress onProgressCallback remainingCount totalCount s =
     (let progress = (real totalCount - real remainingCount) / real totalCount
      in case onProgressCallback of None \<Rightarrow> s | Some callback \<Rightarrow> callback progress s)"

section \<open>app.js: the loading screen\<close>

definition updateLoadingProgress :: "int \<Rightarrow> string \<Rightarrow> 'w runtime \<Rightarrow> 'w runtime" where
  "updateLoadingProgress percent msg s =
     (let s = s\<lparr>loadingCalls := loadingCalls s @ [(percent, msg)]\<rparr>;
          s = (case progressWidth s of
                 None \<Rightarrow> s
               | Some w \<Rightarrow> s\<lparr>progressWidth := Some (render_int percent @ ''%'')\<rparr>)
      in if msg \<noteq> [] then
           (case loadingText s of
              Some (Some t) \<Rightarrow> s\<lparr>loadingText := Some (Some msg)\<rparr>
            | _ \<Rightarrow> s)
         else s)"

section \<open>scene.js\<close>

text \<open>\<^verbatim>\<open>this.app.projectData.manifest.scenes[0]\<close>, followed by a property read of the result:
  it throws when the project data, its manifest, the scene list or its first entry is
  missing.\<close>

definition firstScene :: "projectData option \<Rightarrow> js_error + sceneData" where
  "firstScene pd =
     (case pd of
        None \<Rightarrow> Inl (TypeError ''Cannot read properties of null (reading manifest)'')
      | Some p \<Rightarrow>
          (case pd_manifest p of
             None \<Rightarrow> Inl (TypeError ''Cannot read properties of undefined (reading scenes)'')
           | Some m \<Rightarrow>
               (case mf_scenes m of
                  None \<Rightarrow> Inl (TypeError ''Cannot read properties of undefined (reading 0)'')
                | Some [] \<Rightarrow>
                    Inl (TypeError ''Cannot read properties of undefined (reading glb_groups)'')
                | Some (sceneData # _) \<Rightarrow> Inr sceneData)))"

text \<open>A phase whose body belongs to the host: it is entered in the phase log with the way
  it ended.\<close>

definition runPhase :: "'w host \<Rightarrow> scenePhase \<Rightarrow> 'w runtime stmt" where
  "runPhase H phase s =
     (let (thrown, w) = phaseBody H phase (projectData s) (world s)
      in (thrown, s\<lparr>world := w, phaseLog := phaseLog s @ [(phase, thrown)]\<rparr>))"

text \<open>The progress callback that \<^verbatim>\<open>Scene.loadAssets\<close> hands to the asset manager.\<close>

definition assetProgress :: "real \<Rightarrow> 'w runtime \<Rightarrow> 'w runtime" where
  "assetProgress progress s =
     (let loadingPercent = 50 + \<lfloor>progress * 20\<rfloor>
      in updateLoadingProgress loadingPercent ''Loading assets...'' s)"

text \<open>The asset list that \<^verbatim>\<open>Scene.loadAssets\<close> builds from \<^verbatim>\<open>glb_groups\<close>: the name of an
  entry is made from the length of the list before it is pushed.\<close>

definition glbAssets :: "string list \<Rightarrow> asset list" where
  "glbAssets glb_groups =
     map (\<lambda>(i, glbFile).
            \<lparr> a_type = Some ''model'',
              a_name = Some (''model_'' @ decimal i),
              a_url = Some (''assets/'' @ glbFile) \<rparr>)
         (zip [0..<length glb_groups] glb_groups)"

text \<open>
  The handlers as the engine calls them during the load that \<^verbatim>\<open>Scene.loadAssets\<close> has
  started, with the three callbacks that it gave to \<^verbatim>\<open>AssetManager.loadAssets\<close>:
  \<^verbatim>\<open>resolve\<close>, the progress callback and \<^verbatim>\<open>reject\<close>. Both error handlers call
  \<^verbatim>\<open>reject(task, message, exception)\<close>, so the promise is rejected with the task.
\<close>

primrec taskOnSuccess :: "successCall \<Rightarrow> 'w runtime \<Rightarrow> 'w runtime" where
  "taskOnSuccess (ModelLoaded name loadedMeshes loadedAnimationGroups) s =
     meshTask_onSuccess name loadedMeshes loadedAnimationGroups s"
| "taskOnSuccess (TextureLoaded name) s = textureTask_onSuccess name s"
| "taskOnSuccess (AudioLoaded name) s = audioTask_onSuccess name s"
| "taskOnSuccess (HDRLoaded name) s = hdrTask_onSuccess name s"

primrec handleQuiet :: "quietCall \<Rightarrow> 'w runtime \<Rightarrow> 'w runtime" where
  "handleQuiet (Success call) s = taskOnSuccess call s"
| "handleQuiet (Report remainingCount totalCount) s =
     AssetManager_onProgress (Some assetProgress) remainingCount totalCount s"

primrec handleError :: "errorCall \<Rightarrow> 'w runtime \<Rightarrow> 'w runtime" where
  "handleError (TaskOnError name msg) s = meshTask_onError name msg s"
| "handleError (ManagerOnTaskError name msg) s = AssetManager_onTaskError msg s"

primrec rejectedWith :: "errorCall \<Rightarrow> js_error" where
  "rejectedWith (TaskOnError name msg) = RejectedTask (render name)"
| "rejectedWith (ManagerOnTaskError name msg) = RejectedTask (render name)"

primrec handleCall :: "engineCall \<Rightarrow> 'w runtime \<Rightarrow> 'w runtime" where
  "handleCall (Quiet call) s = handleQuiet call s"
| "handleCall (Failure call) s = handleError call s"
| "handleCall Finish s = AssetManager_onFinish s"

text \<open>
  The \<^verbatim>\<open>await\<close> of the promise. The engine runs the load and calls the handlers. When
  \<^verbatim>\<open>onFinish\<close> settles the promise, the \<^verbatim>\<open>await\<close> ends normally. When an error handler
  settles it, the handlers of the calls that the engine makes in the same turn run
  first, then the \<^verbatim>\<open>await\<close> throws the rejected task; the calls of later turns are still
  to come. A call on a handler after the promise has settled logs as before, and its
  \<^verbatim>\<open>resolve\<close> or \<^verbatim>\<open>reject\<close> does nothing.
\<close>

definition awaitLoad :: "'w host \<Rightarrow> 'w runtime stmt" where
  "awaitLoad H s =
     (let (run, w) = assetsManager_load H (assetTasks s) (world s);
          s = s\<lparr>world := w\<rparr>;
          s = fold handleQuiet (before run) s
      in case ending run of
           OnFinish \<Rightarrow> (None, AssetManager_onFinish s)
         | OnError call sameTurn laterTurns \<Rightarrow>
             (let s = handleError call s;
                  s = fold handleCall sameTurn s
              in (Some (rejectedWith call), s\<lparr>pending := pending s @ laterTurns\<rparr>)))"

text \<open>The later turns of the event loop, in which the engine makes the calls that are
  still to come.\<close>

definition runPending :: "'w runtime \<Rightarrow> 'w runtime" where
  "runPending s = fold handleCall (pending s) (s\<lparr>pending := []\<rparr>)"

text \<open>\<^verbatim>\<open>Scene.loadAssets()\<close> together with the \<^verbatim>\<open>await\<close> of its promise in \<^verbatim>\<open>Scene.initialize\<close>:
  the asset phase, entered in the phase log with the way it ended.\<close>

definition Scene_loadAssets :: "'w host \<Rightarrow> 'w runtime stmt" where
  "Scene_loadAssets H s =
     (let (thrown, s) =
            (case firstScene (projectData s) of
               Inl e \<Rightarrow> (Some e, s)
             | Inr sceneData \<Rightarrow>
                 (let assetsList = (case sd_glb_groups sceneData of
                                      None \<Rightarrow> []
                                    | Some glb_groups \<Rightarrow> glbAssets glb_groups)
                  in seq [AssetManager_loadAssets assetsList, awaitLoad H] s))
      in (thrown, s\<lparr>phaseLog := phaseLog s @ [(Assets, thrown)]\<rparr>))"

text \<open>\<^verbatim>\<open>Scene.initialize()\<close>. The constructor of the asset manager only stores its arguments
  and creates the engine's assets manager with an empty queue.\<close>

definition Scene_initialize :: "'w host \<Rightarrow> 'w runtime stmt" where
  "Scene_initialize H =
     seq [stmt (log ''Creating scene'' False),
          runPhase H Environment,
          stmt (\<lambda>s. s\<lparr>assetTasks := [], loadStarted := False\<rparr>),
          stmt (updateLoadingProgress 40 ''Setting up camera...''),
          runPhase H Camera,
          stmt (updateLoadingProgress 50 ''Loading assets...''),
          Scene_loadAssets H,
          stmt (updateLoadingProgress 70 ''Setting up lights...''),
          runPhase H Lights,
          stmt (updateLoadingProgress 80 ''Setting up interactions...''),
          runPhase H Interaction]"

section \<open>app.js: initialization\<close>

text \<open>A call into the engine (\<^verbatim>\<open>new BABYLON.Engine\<close>, \<^verbatim>\<open>new Scene\<close> with its
  \<^verbatim>\<open>new BABYLON.Scene\<close>, \<^verbatim>\<open>run\<close>): it changes the engine's world and may throw.\<close>

definition hostStep :: "('w \<Rightarrow> js_error option \<times> 'w) \<Rightarrow> 'w runtime stmt" where
  "hostStep f s = (let (thrown, w) = f (world s) in (thrown, s\<lparr>world := w\<rparr>))"

text \<open>\<^verbatim>\<open>this.projectData = await loadJSON(this.projectFile)\<close> and the check that follows it:
  \<^verbatim>\<open>if (!this.projectData) throw new Error(...)\<close>.\<close>

definition loadProject :: "'w host \<Rightarrow> string \<Rightarrow> 'w runtime stmt" where
  "loadProject H projectFile s =
     (let (parsed, s) = loadJSON H projectFile s;
          s = s\<lparr>projectData := parsed\<rparr>
      in case parsed of
           None \<Rightarrow> (Some (Error ''Failed to load project configuration''), s)
         | Some p \<Rightarrow> (None, s))"

text \<open>\<^verbatim>\<open>this.debugMode = this.projectData.debug || false\<close> and
  \<^verbatim>\<open>document.title = this.projectData.name || 'SimpleBEX Project'\<close>; the project data is there
  when these statements are reached.\<close>

definition readSettings :: "'w runtime \<Rightarrow> 'w runtime" where
  "readSettings s =
     (case projectData s of
        None \<Rightarrow> s
      | Some p \<Rightarrow> s\<lparr>debugMode := bool_or_false (pd_debug p),
                      documentTitle := str_or (pd_name p) ''SimpleBEX Project''\<rparr>)"

text \<open>The statements inside the \<^verbatim>\<open>try\<close> of \<^verbatim>\<open>initialize\<close>. The timers that fade the loading
  screen out afterwards are left out.\<close>

definition initializeBody :: "'w host \<Rightarrow> string \<Rightarrow> 'w runtime stmt" where
  "initializeBody H projectFile =
     seq [stmt (updateLoadingProgress 10 ''Loading project configuration...''),
          loadProject H projectFile,
          stmt (updateLoadingProgress 20 ''Creating engine...''),
          stmt readSettings,
          hostStep (new_Engine H),
          stmt (updateLoadingProgress 30 ''Creating scene...''),
          hostStep (new_Scene H),
          Scene_initialize H,
          stmt (updateLoadingProgress 90 ''Starting render loop...''),
          (\<lambda>s. hostStep (runRenderLoop H (debugMode s)) s),
          stmt (updateLoadingProgress 100 ''Ready!'')]"

definition initialize :: "'w host \<Rightarrow> string \<Rightarrow> 'w runtime \<Rightarrow> 'w runtime" where
  "initialize H projectFile s =
     (case initializeBody H projectFile s of
        (None, s') \<Rightarrow> s'
      | (Some error, s') \<Rightarrow>
          updateLoadingProgress 0 (''Error: '' @ message error)
            (s'\<lparr>console := console s' @
                  [ConsoleError (''Initialization error: '' @ message error)]\<rparr>))"

section \<open>Sample values and the decoder as the specification words it\<close>

definition identityArray :: "real list" where
  "identityArray = [1, 0, 0, 0,  0, 1, 0, 0,  0, 0, 1, 0,  0, 0, 0, 1]"

text \<open>A concrete camera constructor for evaluating \<^const>\<open>setupCamera\<close> on examples. No
  statement below depends on the values it gives to the properties.\<close>

definition plainCamera :: "string \<Rightarrow> Vector3 \<Rightarrow> camera" where
  "plainCamera name position =
     \<lparr> cam_name = name, cam_position = position, cam_rotation = Vector3 0 0 0,
       cam_attached = False, cam_speed = 2, cam_inertia = 0.9,
       cam_angularSensibility = 2000,
       cam_keysUp = [38], cam_keysDown = [40], cam_keysLeft = [37], cam_keysRight = [39],
       cam_keysUpward = [33], cam_keysDownward = [34],
       cam_checkCollisions = False, cam_applyGravity = False,
       cam_ellipsoid = Vector3 0.5 1 0.5 \<rparr>"

text \<open>
  The transform decoder in the words of the specification (section 4.1): interpret the
  array as column-major, transpose it to row-major, decompose it into scale, rotation
  quaternion and translation, negate the X component of the position, rotate the
  orientation by a half turn about the up axis (multiplying by it on the left), convert
  the resulting quaternion to Euler angles and negate their Y component. The result is
  the pair of position and Euler rotation.
\<close>

definition spec_decode :: "('m, 'q) engine \<Rightarrow> real list \<Rightarrow> Vector3 \<times> Vector3" where
  "spec_decode E arr =
     (let columnMajor = Matrix_FromArray E arr;
          rowMajor = Matrix_transpose E columnMajor;
          (scale, quaternion, translation) = Matrix_decompose E rowMajor;
          position = Vector3 (- vx translation) (vy translation) (vz translation);
          halfTurn = Matrix_RotationY E pi;
          turned = Matrix_multiply E halfTurn (Quaternion_toRotationMatrix E quaternion);
          euler = Quaternion_toEulerAngles E (Quaternion_FromRotationMatrix E turned)
      in (position, Vector3 (vx euler) (- vy euler) (vz euler)))"

section \<open>Notions used in the statements\<close>

text \<open>The lines of the console that were written as errors, and their number.\<close>

primrec isConsoleError :: "consoleLine \<Rightarrow> bool" where
  "isConsoleError (ConsoleLog t) = False"
| "isConsoleError (ConsoleError t) = True"

definition errorLines :: "'w runtime \<Rightarrow> nat" where
  "errorLines s = length (filter isConsoleError (console s))"

text \<open>The asset types that \<^verbatim>\<open>addAssetTask\<close> has a loader for, and the assets whose task can be
  added: \<^verbatim>\<open>addModelTask\<close> splits the url, so a model needs one.\<close>

definition supportedType :: "asset \<Rightarrow> bool" where
  "supportedType a = (a_type a \<in> {Some ''model'', Some ''texture'', Some ''audio'', Some ''hdr''})"

definition hasUrlIfModel :: "asset \<Rightarrow> bool" where
  "hasUrlIfModel a = (a_type a \<noteq> Some ''model'' \<or> a_url a \<noteq> None)"

text \<open>
  What the specification says of one asset: the task that is registered for it with the
  assets manager (none for an unknown type), and the line that is logged for it (an error
  line that names the type when the type is unknown). \<open>newLines\<close> are the lines that a run
  adds to the console.
\<close>

definition meshTaskOf :: "string option \<Rightarrow> string \<Rightarrow> assetTask" where
  "meshTaskOf name url =
     MeshTask name []
       (substring url 0 (lastIndexOf url CHR ''/'' + 1))
       (substring url (lastIndexOf url CHR ''/'' + 1) (int (length url)))"

definition taskFor :: "asset \<Rightarrow> assetTask list" where
  "taskFor a =
     (if a_type a = Some ''model'' then
        (case a_url a of None \<Rightarrow> [] | Some url \<Rightarrow> [meshTaskOf (a_name a) url])
      else if a_type a = Some ''texture'' then [TextureTask (a_name a) (a_url a)]
      else if a_type a = Some ''audio'' then [BinaryFileTask (a_name a) (a_url a)]
      else if a_type a = Some ''hdr'' then [CubeTextureTask (a_name a) (a_url a)]
      else [])"

definition lineFor :: "asset \<Rightarrow> consoleLine" where
  "lineFor a =
     (if a_type a = Some ''model'' then ConsoleLog (''Loading model: '' @ render (a_url a))
      else if a_type a = Some ''texture'' then
        ConsoleLog (''Loading texture: '' @ render (a_url a))
      else if a_type a = Some ''audio'' then ConsoleLog (''Loading audio: '' @ render (a_url a))
      else if a_type a = Some ''hdr'' then ConsoleLog (''Loading HDR: '' @ render (a_url a))
      else ConsoleError (''[ERROR] Unsupported asset type: '' @ render (a_type a)))"

definition newLines :: "'w runtime \<Rightarrow> 'w runtime \<Rightarrow> consoleLine list" where
  "newLines s s' = drop (length (console s)) (console s')"

text \<open>The order of the phases in the specification, and the entries that a run of
  \<^verbatim>\<open>Scene.initialize\<close> adds to the phase log.\<close>

definition orderOfPhases :: "scenePhase list" where
  "orderOfPhases = [Environment, Camera, Assets, Lights, Interaction]"

definition ranPhases :: "'w runtime \<Rightarrow> 'w runtime \<Rightarrow> (scenePhase \<times> js_error option) list" where
  "ranPhases s s' = drop (length (phaseLog s)) (phaseLog s')"

text \<open>
  The phases as the specification has them, on the engine's world alone. The asset
  phase fails on a manifest without a first scene; otherwise one mesh task is queued
  for each model file of the scene, the assets manager loads them, and the phase ends
  as the load ends, in the world that the load leaves. Every other phase is its body.
  \<open>phasesInOrder\<close> performs the phases of a list one after the other, each in the world
  that the phase before it has left, and stops at the first that throws, with what it
  has thrown.
\<close>

definition assetsOutcome :: "'w host \<Rightarrow> projectData option \<Rightarrow> 'w \<Rightarrow> js_error option \<times> 'w" where
  "assetsOutcome H pd w =
     (case firstScene pd of
        Inl e \<Rightarrow> (Some e, w)
      | Inr sceneData \<Rightarrow>
          (let files = (case sd_glb_groups sceneData of None \<Rightarrow> [] | Some glb_groups \<Rightarrow> glb_groups);
               tasks = map (\<lambda>(i, glbFile).
                              meshTaskOf (Some (''model_'' @ decimal i)) (''assets/'' @ glbFile))
                         (zip [0..<length files] files);
               (run, w') = assetsManager_load H tasks w
           in (case ending run of
                 OnFinish \<Rightarrow> None
               | OnError call sameTurn laterTurns \<Rightarrow> Some (rejectedWith call), w')))"

definition phaseStep ::
  "'w host \<Rightarrow> projectData option \<Rightarrow> scenePhase \<Rightarrow> 'w \<Rightarrow> js_error option \<times> 'w" where
  "phaseStep H pd phase w =
     (if phase = Assets then assetsOutcome H pd w else phaseBody H phase pd w)"

primrec phasesInOrder ::
  "'w host \<Rightarrow> projectData option \<Rightarrow> scenePhase list \<Rightarrow> 'w \<Rightarrow> js_error option \<times> 'w" where
  "phasesInOrder H pd [] w = (None, w)"
| "phasesInOrder H pd (phase # phases) w =
     (case phaseStep H pd phase w of
        (Some e, w') \<Rightarrow> (Some e, w')
      | (None, w') \<Rightarrow> phasesInOrder H pd phases w')"

text \<open>
  A report \<open>(remainingCount, totalCount)\<close> of the assets manager: the fraction of the tasks
  that are done, and the percentage that the progress callback puts on the loading
  screen for it. Reports are ordered when no report has more tasks left than there are
  and the fraction never goes down. \<open>newCalls\<close> are the calls of
  \<^verbatim>\<open>updateLoadingProgress\<close> that a run adds.
\<close>

definition fractionDone :: "nat \<times> nat \<Rightarrow> real" where
  "fractionDone p = (real (snd p) - real (fst p)) / real (snd p)"

definition reportedPercent :: "nat \<times> nat \<Rightarrow> int" where
  "reportedPercent p = 50 + \<lfloor>(real (snd p) - real (fst p)) / real (snd p) * 20\<rfloor>"

definition reportsOrdered :: "(nat \<times> nat) list \<Rightarrow> bool" where
  "reportsOrdered rs =
     (list_all (\<lambda>p. fst p \<le> snd p \<and> 0 < snd p) rs \<and>
      sorted (map fractionDone rs))"

definition newCalls :: "'w runtime \<Rightarrow> 'w runtime \<Rightarrow> (int \<times> string) list" where
  "newCalls s s' = drop (length (loadingCalls s)) (loadingCalls s')"

text \<open>The reports that a load makes before its promise settles, oldest first.\<close>

primrec reportOf :: "quietCall \<Rightarrow> (nat \<times> nat) list" where
  "reportOf (Success call) = []"
| "reportOf (Report remainingCount totalCount) = [(remainingCount, totalCount)]"

definition reports :: "loadRun \<Rightarrow> (nat \<times> nat) list" where
  "reports run = concat (map reportOf (before run))"

text \<open>The manifest fetch fails: \<^verbatim>\<open>fetch\<close> rejects, the response is not ok, reading its text
  rejects, or \<^verbatim>\<open>JSON.parse\<close> throws.\<close>

definition fetchFails :: "'w host \<Rightarrow> string \<Rightarrow> bool" where
  "fetchFails H url =
     (case fetch H url of
        FetchRejects e \<Rightarrow> True
      | Response ok status body \<Rightarrow>
          \<not> ok \<or> (case body of TextRejects e \<Rightarrow> True | Text text \<Rightarrow> isl (JSON_parse H text)))"

text \<open>A light has the color, or the intensity, of its record when the record has one; and
  the class of light that the specification gives to each type.\<close>

definition colorApplied :: "lightData \<Rightarrow> light \<Rightarrow> bool" where
  "colorApplied lightData light =
     (case ld_color lightData of
        None \<Rightarrow> True
      | Some color \<Rightarrow>
          light_diffuse light = Some (Color3 (color ! 0) (color ! 1) (color ! 2)) \<and>
          light_specular light = Some (Color3 (color ! 0) (color ! 1) (color ! 2)))"

definition intensityApplied :: "lightData \<Rightarrow> light \<Rightarrow> bool" where
  "intensityApplied lightData light =
     (case ld_intensity lightData of
        None \<Rightarrow> True
      | Some intensity \<Rightarrow> light_intensity light = Some intensity)"

definition lightClassOf :: "string option \<Rightarrow> lightClass" where
  "lightClassOf type =
     (if type = Some ''POINT'' then PointLight
      else if type = Some ''SPOT'' then SpotLight
      else if type = Some ''SUN'' \<or> type = Some ''DIRECTIONAL'' then DirectionalLight
      else HemisphericLight)"

text \<open>The camera as \<^verbatim>\<open>setupCamera\<close> has placed it when it calls \<^verbatim>\<open>attachControl\<close>: decoded from
  the matrix when the field holds an array, at the default placement otherwise.\<close>

definition placedCamera :: "('m, 'q) engine \<Rightarrow> camera \<Rightarrow> cameraData \<Rightarrow> camera" where
  "placedCamera E camera cameraData =
     (case cd_matrix cameraData of
        Some (MatrixArray matrix) \<Rightarrow> applyTransformation E camera matrix
      | _ \<Rightarrow> camera\<lparr>cam_position := Vector3 0 2 (- 10), cam_rotation := Vector3 0 0 0\<rparr>)"

text \<open>
  The load of a full run from the state \<open>s\<close> to the state \<open>s'\<close>: the assets manager loads the
  tasks of its queue in the world that the engine constructor, the scene constructor,
  the environment phase and the camera phase have left, one after the other.
\<close>

definition loadOfRun :: "'w host \<Rightarrow> 'w runtime \<Rightarrow> 'w runtime \<Rightarrow> loadRun" where
  "loadOfRun H s s' =
     fst (assetsManager_load H (assetTasks s')
            (snd (phasesInOrder H (projectData s') [Environment, Camera]
                    (snd (new_Scene H (snd (new_Engine H (world s))))))))"

section \<open>Sample hosts and records\<close>

text \<open>A page with a canvas, on which the camera constructor and \<^verbatim>\<open>attachControl\<close> succeed;
  a browser with nothing logged or registered; a camera entry whose \<^verbatim>\<open>matrix\<close> is \<^verbatim>\<open>null\<close>,
  and one without the field.\<close>

definition plainCameraHost :: cameraHost where
  "plainCameraHost =
     \<lparr> new_UniversalCamera = (\<lambda>name position. Inr (plainCamera name position)),
       attachControl = (\<lambda>camera. None),
       canvasExists = True \<rparr>"

definition emptyBrowser :: browser where
  "emptyBrowser = \<lparr> br_console = [], br_listeners = [] \<rparr>"

definition nullMatrixCamera :: cameraData where
  "nullMatrixCamera =
     \<lparr> cd_name = Some ''Cam'', cd_matrix = Some MatrixNull,
       cd_checkCollisions = None, cd_applyGravity = None \<rparr>"

definition noMatrixCamera :: cameraData where
  "noMatrixCamera =
     \<lparr> cd_name = Some ''Cam'', cd_matrix = None,
       cd_checkCollisions = None, cd_applyGravity = None \<rparr>"

text \<open>
  The assets manager of the engine counts the waiting tasks down: when the \<open>k\<close>-th of
  \<open>n\<close> tasks has ended it calls the \<^verbatim>\<open>onSuccess\<close> of the task and reports \<open>(n - k, n)\<close>. The
  sample host fetches and parses a project with one model file, its engine and phases
  never throw, and its assets manager loads every task (a model as one mesh without
  animation groups) and reports in this way. The other hosts differ from it in one
  point: the manifest is not found (HTTP 404), the light phase throws, or the model
  file cannot be loaded. For a failed task the engine calls the \<^verbatim>\<open>onError\<close> of the task,
  \<^verbatim>\<open>onTaskError\<close> with the task alone, and then counts the task as ended.
\<close>

definition engineReports :: "nat \<Rightarrow> (nat \<times> nat) list" where
  "engineReports n = map (\<lambda>k. (n - k, n)) [1..<Suc n]"

primrec loadedCall :: "assetTask \<Rightarrow> successCall" where
  "loadedCall (MeshTask name meshNames rootUrl sceneFilename) = ModelLoaded name 1 []"
| "loadedCall (TextureTask name url) = TextureLoaded name"
| "loadedCall (BinaryFileTask name url) = AudioLoaded name"
| "loadedCall (CubeTextureTask name url) = HDRLoaded name"

definition engineCalls :: "assetTask list \<Rightarrow> quietCall list" where
  "engineCalls tasks =
     concat (map (\<lambda>(k, task). [Success (loadedCall task), Report (length tasks - k) (length tasks)])
               (zip [1..<Suc (length tasks)] tasks))"

definition sampleProject :: projectData where
  "sampleProject =
     \<lparr> pd_name = Some ''Demo'', pd_debug = Some False,
       pd_manifest = Some \<lparr> mf_scenes = Some [\<lparr> sd_glb_groups = Some [''room.glb''] \<rparr>] \<rparr> \<rparr>"

definition sampleHost :: "unit host" where
  "sampleHost =
     \<lparr> fetch = (\<lambda>url. Response True 200 (Text ''(the text of the manifest)'')),
       JSON_parse = (\<lambda>text. Inr (Some sampleProject)),
       new_Engine = (\<lambda>w. (None, w)),
       new_Scene = (\<lambda>w. (None, w)),
       phaseBody = (\<lambda>phase pd w. (None, w)),
       assetsManager_load =
         (\<lambda>tasks w. (\<lparr> before = engineCalls tasks, ending = OnFinish \<rparr>, w)),
       runRenderLoop = (\<lambda>debug w. (None, w)) \<rparr>"

definition offlineHost :: "unit host" where
  "offlineHost = sampleHost\<lparr>fetch := (\<lambda>url. Response False 404 (Text ''Not Found''))\<rparr>"

definition darkHost :: "unit host" where
  "darkHost =
     sampleHost\<lparr>phaseBody :=
       (\<lambda>phase pd w. (if phase = Lights then Some (Error ''no lights'') else None, w))\<rparr>"

definition brokenModelHost :: "unit host" where
  "brokenModelHost =
     sampleHost\<lparr>assetsManager_load :=
       (\<lambda>tasks w.
          (\<lparr> before = [],
             ending = OnError (TaskOnError (Some ''model_0'') (Some ''not found''))
                        [Failure (ManagerOnTaskError (Some ''model_0'') None),
                         Quiet (Report 0 1), Finish]
                        [] \<rparr>, w))\<rparr>"

text \<open>A host whose world is the list of the phases that the engine has been asked to
  perform, each phase adding itself; and the same host with a light phase that throws.\<close>

definition tracingHost :: "scenePhase list host" where
  "tracingHost =
     \<lparr> fetch = (\<lambda>url. Response True 200 (Text ''(the text of the manifest)'')),
       JSON_parse = (\<lambda>text. Inr (Some sampleProject)),
       new_Engine = (\<lambda>w. (None, w)),
       new_Scene = (\<lambda>w. (None, w)),
       phaseBody = (\<lambda>phase pd w. (None, w @ [phase])),
       assetsManager_load =
         (\<lambda>tasks w. (\<lparr> before = engineCalls tasks, ending = OnFinish \<rparr>, w @ [Assets])),
       runRenderLoop = (\<lambda>debug w. (None, w)) \<rparr>"

definition tracingDarkHost :: "scenePhase list host" where
  "tracingDarkHost =
     tracingHost\<lparr>phaseBody :=
       (\<lambda>phase pd w. (if phase = Lights then Some (Error ''no lights'') else None,
                      w @ [phase]))\<rparr>"

definition tracedPage :: "scenePhase list runtime" where
  "tracedPage =
     \<lparr> console = [], loadingCalls = [], progressWidth = Some ''0%'',
       loadingText = Some (Some ''Loading...''), documentTitle = ''SimpleBEX'',
       projectData = Some sampleProject, debugMode = False, assetTasks = [],
       loadStarted = False, phaseLog = [], pending = [], world = [] \<rparr>"

text \<open>A page with both loading-screen elements, before anything has run, and the same page
  once the project data is there.\<close>

definition freshPage :: "unit runtime" where
  "freshPage =
     \<lparr> console = [], loadingCalls = [], progressWidth = Some ''0%'',
       loadingText = Some (Some ''Loading...''), documentTitle = ''SimpleBEX'',
       projectData = None, debugMode = False, assetTasks = [], loadStarted = False,
       phaseLog = [], pending = [], world = () \<rparr>"

definition loadedPage :: "unit runtime" where
  "loadedPage = freshPage\<lparr>projectData := Some sampleProject\<rparr>"

definition sampleAssets :: "asset list" where
  "sampleAssets =
     [\<lparr> a_type = Some ''model'', a_name = Some ''room'', a_url = Some ''assets/room.glb'' \<rparr>,
      \<lparr> a_type = Some ''texture'', a_name = Some ''wood'', a_url = Some ''assets/wood.png'' \<rparr>,
      \<lparr> a_type = Some ''bogus'', a_name = Some ''thing'', a_url = Some ''assets/thing.xyz'' \<rparr>]"

definition areaLightData :: lightData where
  "areaLightData =
     \<lparr> ld_name = Some ''Fill'', ld_type = Some ''AREA'', ld_matrix = None,
       ld_color = Some [1, 0, 0], ld_intensity = Some 2, ld_range = None,
       ld_angle = None, ld_exponent = None, ld_castShadows = None \<rparr>"

definition pointLightData :: lightData where
  "pointLightData =
     \<lparr> ld_name = Some ''Lamp'', ld_type = Some ''POINT'', ld_matrix = None,
       ld_color = Some [1, 0, 0], ld_intensity = Some 2, ld_range = Some 0,
       ld_angle = None, ld_exponent = None, ld_castShadows = Some True \<rparr>"


section \<open>The reference engine on the identity matrix\<close>

lemma FromArray_identity:
  "babylon_FromArray identityArray = Matrix 1 0 0 0 0 1 0 0 0 0 1 0 0 0 0 1"
  by (simp add: babylon_FromArray_def identityArray_def)

lemma decompose_identity:
  "babylon_decompose (Matrix 1 0 0 0 0 1 0 0 0 0 1 0 0 0 0 1) =
     (Vector3 1 1 1, Quaternion 0 0 0 1, Vector3 0 0 0)"
  by (simp add: Let_def)

lemma toRotationMatrix_identity:
  "babylon_toRotationMatrix (Quaternion 0 0 0 1) = Matrix 1 0 0 0 0 1 0 0 0 0 1 0 0 0 0 1"
  by (simp add: Let_def)

text \<open>The conversion matrix \<^verbatim>\<open>Matrix.RotationY(Math.PI)\<close> is the half turn about the Y axis.\<close>

lemma RotationY_pi:
  "babylon_RotationY pi = Matrix (- 1) 0 0 0  0 1 0 0  0 0 (- 1) 0  0 0 0 1"
  by (simp add: babylon_RotationY_def Let_def)

lemma multiply_half_turn_identity:
  "babylon_multiply (Matrix (- 1) 0 0 0  0 1 0 0  0 0 (- 1) 0  0 0 0 1)
                    (Matrix 1 0 0 0 0 1 0 0 0 0 1 0 0 0 0 1) =
   Matrix (- 1) 0 0 0  0 1 0 0  0 0 (- 1) 0  0 0 0 1"
  by simp

lemma FromRotationMatrix_half_turn:
  "babylon_FromRotationMatrix (Matrix (- 1) 0 0 0  0 1 0 0  0 0 (- 1) 0  0 0 0 1) =
     Quaternion 0 1 0 0"
  by (simp add: Let_def)

lemma toEulerAngles_half_turn:
  "babylon_toEulerAngles (Quaternion 0 1 0 0) = Vector3 0 pi 0"
  by (simp add: Let_def Math_atan2_def)

lemma applyTransformation_identity:
  "applyTransformation babylon camera identityArray =
     camera\<lparr>cam_position := Vector3 0 0 0, cam_rotation := Vector3 0 (- pi) 0\<rparr>"
  by (simp add: applyTransformation_def babylon_def FromArray_identity decompose_identity
        toRotationMatrix_identity RotationY_pi multiply_half_turn_identity
        FromRotationMatrix_half_turn toEulerAngles_half_turn del: babylon_decompose.simps
        babylon_toRotationMatrix.simps babylon_multiply.simps babylon_FromRotationMatrix.simps
        babylon_toEulerAngles.simps)

section \<open>Where the decoded position comes from\<close>

text \<open>
  The decoders transpose the array before the engine decomposes it, and the engine reads
  the translation from entries 12, 13, 14 of the matrix it is given. After the transpose
  these are entries 3, 7 and 11 of the input array.
\<close>

lemma babylon_translation:
  "snd (snd (babylon_decompose (babylon_transpose (babylon_FromArray arr)))) =
     Vector3 (arr ! 3) (arr ! 7) (arr ! 11)"
  by (simp add: babylon_FromArray_def Let_def)

lemma applyTransformation_babylon_position:
  "cam_position (applyTransformation babylon camera arr) =
     Vector3 (- (arr ! 3)) (arr ! 7) (arr ! 11)"
  using babylon_translation [of arr]
  by (simp add: applyTransformation_def babylon_def Let_def split_def)

lemma getPositionFromMatrix_babylon:
  "getPositionFromMatrix babylon arr = Vector3 (arr ! 3) (arr ! 7) (arr ! 11)"
  using babylon_translation [of arr]
  by (simp add: getPositionFromMatrix_def babylon_def Let_def split_def)

lemma light_position_applyColor [simp]:
  "light_position (applyColor lightData light) = light_position light"
  by (simp add: applyColor_def split: option.splits)

lemma light_position_applyIntensity [simp]:
  "light_position (applyIntensity lightData light) = light_position light"
  by (simp add: applyIntensity_def split: option.splits)

lemma createPointLight_babylon_position:
  "light_position (createPointLight babylon (lightData\<lparr>ld_matrix := Some arr\<rparr>)) =
     Some (Vector3 (- (arr ! 3)) (arr ! 7) (arr ! 11))"
  by (simp add: createPointLight_def getPositionFromMatrix_babylon Let_def
        split: option.splits)

text \<open>So negating entry 3 of a 16-element array is what negates the decoded X, for the
  camera and for a point light, and leaves Y and Z as they are.\<close>

lemma negating_entry_3_negates_decoded_x:
  assumes "length arr = 16"
  shows "cam_position (applyTransformation babylon camera (arr[3 := - (arr ! 3)])) =
           Vector3 (- vx (cam_position (applyTransformation babylon camera arr)))
                   (vy (cam_position (applyTransformation babylon camera arr)))
                   (vz (cam_position (applyTransformation babylon camera arr)))"
    and "getPositionFromMatrix babylon (arr[3 := - (arr ! 3)]) =
           Vector3 (- vx (getPositionFromMatrix babylon arr))
                   (vy (getPositionFromMatrix babylon arr))
                   (vz (getPositionFromMatrix babylon arr))"
  using assms
  by (simp_all add: applyTransformation_babylon_position getPositionFromMatrix_babylon)

text \<open>
  The camera matrix of the sample project in \<^verbatim>\<open>createDefaultProject\<close> has its translation
  \<open>(0, 2, -10)\<close> in the last four entries. The decoder places that camera at the origin.
\<close>

lemma sample_project_camera_position:
  "cam_position (applyTransformation babylon camera
      [1, 0, 0, 0,  0, 1, 0, 0,  0, 0, 1, 0,  0, 2, - 10, 1]) = Vector3 0 0 0"
  by (simp add: applyTransformation_babylon_position)

section \<open>The transform decoder\<close>

text \<open>
  Claim C1, as the specification states it: for the identity matrix the decoder gives the
  zero position and zero Euler angles. The rotation part does not hold: every decoded
  orientation is turned by half a turn about the Y axis, also the identity.
\<close>

theorem identity_rotation_is_not_zero:
  "cam_rotation (applyTransformation babylon (plainCamera ''MainCamera'' (Vector3 0 0 0))
      identityArray) \<noteq> Vector3 0 0 0"
  by (simp add: applyTransformation_identity)

text \<open>
  Claim C1, amended: for the identity matrix \<^verbatim>\<open>applyTransformation\<close> puts the camera at the
  zero vector, and its rotation is the half turn about the Y axis, with Euler angles
  \<open>(0, -\<pi>, 0)\<close>.
\<close>

theorem identity_decodes_to_origin_and_half_turn:
  "cam_position (applyTransformation babylon camera identityArray) = Vector3 0 0 0 \<and>
   cam_rotation (applyTransformation babylon camera identityArray) = Vector3 0 (- pi) 0"
  by (simp add: applyTransformation_identity)

text \<open>
  Claim C2. For every engine and every input array, \<^verbatim>\<open>applyTransformation\<close> does exactly
  the steps of the specification: the array is read as it is and transposed, the result
  is decomposed into scale, rotation quaternion and translation, the camera position is
  the translation with X negated, the rotation is multiplied on the left by the rotation
  of \<open>\<pi>\<close> about Y, and the camera rotation is the Euler angles of the resulting quaternion
  with Y negated. Nothing else on the camera changes.
\<close>

theorem applyTransformation_follows_the_steps:
  "applyTransformation E camera matrix =
     camera\<lparr>cam_position := fst (spec_decode E matrix),
            cam_rotation := snd (spec_decode E matrix)\<rparr>"
  by (simp add: applyTransformation_def spec_decode_def Let_def split_def)

text \<open>
  Claim C3: negating the X-translation entry of the matrix negates the decoded X, for the
  camera and for the light position. The arrays are column-major (the comments of both
  decoders say so, and the sample project keeps the translation in entries 12, 13, 14), so
  the X translation is entry 12. The code does not behave so: it transposes the array
  first, and the decoded position is made of entries 3, 7 and 11. On the array below,
  whose X translation is 5, the camera X and the light X are the same before and after
  the entry is negated.
\<close>

theorem negated_translation_entry_is_not_decoded:
  "cam_position (applyTransformation babylon camera
      [1, 0, 0, 1,  0, 1, 0, 0,  0, 0, 1, 0,  5, 0, 0, 1]) = Vector3 (- 1) 0 0 \<and>
   cam_position (applyTransformation babylon camera
      [1, 0, 0, 1,  0, 1, 0, 0,  0, 0, 1, 0,  - 5, 0, 0, 1]) = Vector3 (- 1) 0 0 \<and>
   light_position (createPointLight babylon (lightData\<lparr>ld_matrix :=
      Some [1, 0, 0, 1,  0, 1, 0, 0,  0, 0, 1, 0,  5, 0, 0, 1]\<rparr>)) =
     Some (Vector3 (- 1) 0 0) \<and>
   light_position (createPointLight babylon (lightData\<lparr>ld_matrix :=
      Some [1, 0, 0, 1,  0, 1, 0, 0,  0, 0, 1, 0,  - 5, 0, 0, 1]\<rparr>)) =
     Some (Vector3 (- 1) 0 0)"
  by (simp add: applyTransformation_babylon_position createPointLight_babylon_position)

text \<open>
  Claim C9. The decoding duplicated between camera and lights agrees where it overlaps.
  For every engine and every array: the position that \<^verbatim>\<open>applyTransformation\<close> gives the
  camera is the position of \<^verbatim>\<open>getPositionFromMatrix\<close> with its X negated; the position
  returned by \<^verbatim>\<open>getPositionAndDirectionFromMatrix\<close> is the one returned by
  \<^verbatim>\<open>getPositionFromMatrix\<close>; and a point light created from a record with that matrix is
  placed where the camera is placed.
\<close>

theorem decoders_agree_on_position:
  "cam_position (applyTransformation E camera matrix) =
     Vector3 (- vx (getPositionFromMatrix E matrix)) (vy (getPositionFromMatrix E matrix))
             (vz (getPositionFromMatrix E matrix)) \<and>
   fst (getPositionAndDirectionFromMatrix E matrix) = getPositionFromMatrix E matrix \<and>
   light_position (createPointLight E (lightData\<lparr>ld_matrix := Some matrix\<rparr>)) =
     Some (cam_position (applyTransformation E camera matrix))"
  by (simp add: applyTransformation_def getPositionFromMatrix_def
        getPositionAndDirectionFromMatrix_def createPointLight_def Let_def split_def
        split: option.splits)

section \<open>setupCamera\<close>

lemma setupCamera_throws_iff:
  "isl (fst (setupCamera E W cameraData b)) =
     (case new_UniversalCamera W (str_or (cd_name cameraData) ''MainCamera'') (Vector3 0 0 0) of
        Inl e \<Rightarrow> True
      | Inr camera \<Rightarrow>
          attachControl W (placedCamera E camera cameraData) \<noteq> None \<or> \<not> canvasExists W)"
  by (auto simp: setupCamera_def setupCameraEnhancements_def placedCamera_def Let_def
        split: sum.splits option.splits matrixValue.splits)

lemma setupCamera_thrown_value:
  "fst (setupCamera E W cameraData b) = Inl e \<longleftrightarrow>
     (case new_UniversalCamera W (str_or (cd_name cameraData) ''MainCamera'') (Vector3 0 0 0) of
        Inl e' \<Rightarrow> e = e'
      | Inr camera \<Rightarrow>
          (case attachControl W (placedCamera E camera cameraData) of
             Some e' \<Rightarrow> e = e'
           | None \<Rightarrow> \<not> canvasExists W \<and>
               e = TypeError ''Cannot read properties of null (reading addEventListener)''))"
  by (auto simp: setupCamera_def setupCameraEnhancements_def placedCamera_def Let_def
        split: sum.splits option.splits matrixValue.splits)

text \<open>
  Claim C10, as the specification states it, does not hold of the code. The test in
  \<^verbatim>\<open>setupCamera\<close> is \<^verbatim>\<open>if (cameraData.matrix)\<close>, a test of truthiness and not of presence: the
  entry \<^verbatim>\<open>{ name: 'Cam', matrix: null }\<close> has a matrix field, and on a page where nothing
  throws its camera is not decoded but put at the default position (0, 2, -10) with
  rotation (0, 0, 0).
\<close>

theorem null_matrix_takes_the_default_path:
  "cd_matrix nullMatrixCamera \<noteq> None \<and>
   (case fst (setupCamera babylon plainCameraHost nullMatrixCamera emptyBrowser) of
      Inl e \<Rightarrow> False
    | Inr camera \<Rightarrow>
        cam_position camera = Vector3 0 2 (- 10) \<and> cam_rotation camera = Vector3 0 0 0)"
  by (simp add: setupCamera_def setupCameraEnhancements_def nullMatrixCamera_def
        plainCameraHost_def Let_def)

text \<open>
  Claim C10, amended. For every engine, page, camera entry and browser state:
  \<^verbatim>\<open>setupCamera\<close> throws exactly when the engine's camera constructor throws, or
  \<^verbatim>\<open>attachControl\<close> throws on the placed camera, or the canvas is \<^verbatim>\<open>null\<close> (then
  \<^verbatim>\<open>canvas.addEventListener\<close> throws in \<^verbatim>\<open>setupCameraEnhancements\<close>); so an entry without a
  matrix is not enough for it never to throw. Whenever it returns a camera, that camera
  is the constructed one with this placement: when the \<^verbatim>\<open>matrix\<close> field holds an array, the
  position and the rotation that \<^verbatim>\<open>applyTransformation\<close> decodes from it; when the field is
  \<^verbatim>\<open>null\<close> or the entry has no such field, position (0, 2, -10) and rotation (0, 0, 0). The
  decoding path is thus taken if and only if the field holds an array, which is less than
  the entry having the field.
\<close>

theorem setupCamera_placement_and_exceptions:
  "(isl (fst (setupCamera E W cameraData b)) =
      (case new_UniversalCamera W (str_or (cd_name cameraData) ''MainCamera'') (Vector3 0 0 0) of
         Inl e \<Rightarrow> True
       | Inr camera0 \<Rightarrow>
           attachControl W (placedCamera E camera0 cameraData) \<noteq> None \<or> \<not> canvasExists W)) \<and>
   (\<forall>camera. fst (setupCamera E W cameraData b) = Inr camera \<longrightarrow>
      (\<exists>camera0.
         new_UniversalCamera W (str_or (cd_name cameraData) ''MainCamera'') (Vector3 0 0 0) =
           Inr camera0 \<and>
         (case cd_matrix cameraData of
            Some (MatrixArray matrix) \<Rightarrow>
              cam_position camera = cam_position (applyTransformation E camera0 matrix) \<and>
              cam_rotation camera = cam_rotation (applyTransformation E camera0 matrix)
          | Some MatrixNull \<Rightarrow>
              cam_position camera = Vector3 0 2 (- 10) \<and> cam_rotation camera = Vector3 0 0 0
          | None \<Rightarrow>
              cam_position camera = Vector3 0 2 (- 10) \<and> cam_rotation camera = Vector3 0 0 0)))"
proof (intro conjI allI impI)
  show "isl (fst (setupCamera E W cameraData b)) =
      (case new_UniversalCamera W (str_or (cd_name cameraData) ''MainCamera'') (Vector3 0 0 0) of
         Inl e \<Rightarrow> True
       | Inr camera0 \<Rightarrow>
           attachControl W (placedCamera E camera0 cameraData) \<noteq> None \<or> \<not> canvasExists W)"
    by (rule setupCamera_throws_iff)
next
  fix camera
  assume "fst (setupCamera E W cameraData b) = Inr camera"
  then show "\<exists>camera0.
         new_UniversalCamera W (str_or (cd_name cameraData) ''MainCamera'') (Vector3 0 0 0) =
           Inr camera0 \<and>
         (case cd_matrix cameraData of
            Some (MatrixArray matrix) \<Rightarrow>
              cam_position camera = cam_position (applyTransformation E camera0 matrix) \<and>
              cam_rotation camera = cam_rotation (applyTransformation E camera0 matrix)
          | Some MatrixNull \<Rightarrow>
              cam_position camera = Vector3 0 2 (- 10) \<and> cam_rotation camera = Vector3 0 0 0
          | None \<Rightarrow>
              cam_position camera = Vector3 0 2 (- 10) \<and> cam_rotation camera = Vector3 0 0 0)"
    by (auto simp: setupCamera_def setupCameraEnhancements_def Let_def
          split: sum.splits option.splits matrixValue.splits if_splits)
qed

theorem setupCamera_placement_witness:
  "\<exists>camera. fst (setupCamera babylon plainCameraHost noMatrixCamera emptyBrowser) = Inr camera \<and>
     cam_position camera = Vector3 0 2 (- 10) \<and> cam_rotation camera = Vector3 0 0 0"
proof -
  let ?r = "fst (setupCamera babylon plainCameraHost noMatrixCamera emptyBrowser)"
  have none: "cd_matrix noMatrixCamera = None"
    by (simp add: noMatrixCamera_def)
  from setupCamera_placement_and_exceptions
         [of babylon plainCameraHost noMatrixCamera emptyBrowser]
  have "\<not> isl ?r"
    and placed: "\<forall>camera. ?r = Inr camera \<longrightarrow>
      cam_position camera = Vector3 0 2 (- 10) \<and> cam_rotation camera = Vector3 0 0 0"
    by (simp_all add: plainCameraHost_def none)
  then obtain camera where "?r = Inr camera"
    by (cases ?r) simp_all
  with placed show ?thesis by simp
qed

text \<open>An entry without a matrix on a page without the canvas: \<^verbatim>\<open>setupCamera\<close> throws, after
  it has placed the camera.\<close>

lemma missing_canvas_throws:
  "fst (setupCamera babylon (plainCameraHost\<lparr>canvasExists := False\<rparr>) noMatrixCamera
         emptyBrowser) =
     Inl (TypeError ''Cannot read properties of null (reading addEventListener)'')"
  by (simp add: setupCamera_thrown_value plainCameraHost_def placedCamera_def
        noMatrixCamera_def)

section \<open>setupLights\<close>

lemma createPointLight_props:
  "light_class (createPointLight E ld) = PointLight \<and>
   colorApplied ld (createPointLight E ld) \<and>
   intensityApplied ld (createPointLight E ld) \<and>
   light_range (createPointLight E ld) =
     (case ld_range ld of None \<Rightarrow> None | Some r \<Rightarrow> if r = 0 then None else Some r) \<and>
   light_angle (createPointLight E ld) = None \<and>
   light_shadowGenerator (createPointLight E ld) = None"
  by (simp add: createPointLight_def Let_def newLight_def colorApplied_def
        intensityApplied_def applyColor_def applyIntensity_def split: option.splits)

lemma createSpotLight_props:
  "light_class (createSpotLight E ld) = SpotLight \<and>
   colorApplied ld (createSpotLight E ld) \<and>
   intensityApplied ld (createSpotLight E ld) \<and>
   light_range (createSpotLight E ld) = None \<and>
   light_angle (createSpotLight E ld) = Some (num_or (ld_angle ld) (pi / 4)) \<and>
   light_shadowGenerator (createSpotLight E ld) = None"
  by (simp add: createSpotLight_def Let_def newLight_def colorApplied_def
        intensityApplied_def applyColor_def applyIntensity_def
        applyPositionAndDirection_def split_def split: option.splits)

lemma createDirectionalLight_props:
  "light_class (fst (createDirectionalLight E meshes ld)) = DirectionalLight \<and>
   colorApplied ld (fst (createDirectionalLight E meshes ld)) \<and>
   intensityApplied ld (fst (createDirectionalLight E meshes ld)) \<and>
   light_range (fst (createDirectionalLight E meshes ld)) = None \<and>
   light_angle (fst (createDirectionalLight E meshes ld)) = None \<and>
   (light_shadowGenerator (fst (createDirectionalLight E meshes ld)) \<noteq> None) =
     (ld_castShadows ld = Some True)"
  by (simp add: createDirectionalLight_def Let_def newLight_def colorApplied_def
        intensityApplied_def applyColor_def applyIntensity_def bool_or_false_def
        applyPositionAndDirection_def split_def split: option.splits)

text \<open>
  Claim C7, as the specification states it: every constructed light has the color and
  the intensity of its record. The light of the default branch does not: a record of an
  unknown type with a color and an intensity gives a hemispheric light with neither.
\<close>

theorem default_light_ignores_color_and_intensity:
  "\<not> (colorApplied areaLightData (fst (setupLights babylon [] areaLightData)) \<and>
      intensityApplied areaLightData (fst (setupLights babylon [] areaLightData)))"
  by (simp add: setupLights_def areaLightData_def colorApplied_def newLight_def)

text \<open>
  Claim C7, amended. For every light record: the type \<^verbatim>\<open>POINT\<close> gives a point light,
  \<^verbatim>\<open>SPOT\<close> a spot light, \<^verbatim>\<open>SUN\<close> and \<^verbatim>\<open>DIRECTIONAL\<close> a directional light, and any other
  type a hemispheric light. Point, spot and directional lights have the color and the
  intensity of the record when it has them; the hemispheric light has neither. The range
  is set on a point light only, when the record has a range that is not zero. The angle
  is given to a spot light only: the angle of the record, or \<open>\<pi>/4\<close> when it is missing or
  zero. A shadow generator is created exactly for a directional light whose record has
  \<^verbatim>\<open>castShadows\<close> true.
\<close>

theorem setupLights_dispatch:
  "(let light = fst (setupLights E meshes lightData) in
    light_class light = lightClassOf (ld_type lightData) \<and>
    (if light_class light = HemisphericLight
     then light_diffuse light = None \<and> light_specular light = None \<and>
          light_intensity light = None
     else colorApplied lightData light \<and> intensityApplied lightData light) \<and>
    light_range light =
      (if light_class light = PointLight
       then (case ld_range lightData of
               None \<Rightarrow> None
             | Some r \<Rightarrow> if r = 0 then None else Some r)
       else None) \<and>
    light_angle light =
      (if light_class light = SpotLight
       then Some (num_or (ld_angle lightData) (pi / 4))
       else None) \<and>
    (light_shadowGenerator light \<noteq> None) =
      (light_class light = DirectionalLight \<and> ld_castShadows lightData = Some True))"
  using createPointLight_props [of E lightData] createSpotLight_props [of E lightData]
    createDirectionalLight_props [of E meshes lightData]
  by (simp add: setupLights_def lightClassOf_def Let_def newLight_def)

theorem setupLights_dispatch_witness:
  "light_class (fst (setupLights babylon [] pointLightData)) = PointLight \<and>
   colorApplied pointLightData (fst (setupLights babylon [] pointLightData)) \<and>
   light_range (fst (setupLights babylon [] pointLightData)) = None \<and>
   light_shadowGenerator (fst (setupLights babylon [] pointLightData)) = None"
proof -
  have fields: "ld_type pointLightData = Some ''POINT''" "ld_range pointLightData = Some 0"
    by (simp_all add: pointLightData_def)
  from setupLights_dispatch [of babylon "[]" pointLightData] show ?thesis
    by (auto simp add: Let_def lightClassOf_def fields)
qed

section \<open>Asset dispatch\<close>

lemma addAssetTask_effect:
  assumes "hasUrlIfModel a"
  shows "addAssetTask a s =
           (None, s\<lparr>console := console s @ [lineFor a],
                    assetTasks := assetTasks s @ taskFor a\<rparr>)"
  using assms
  by (auto simp: addAssetTask_def addModelTask_def addTextureTask_def addAudioTask_def
        addHDRTask_def log_def hasUrlIfModel_def lineFor_def taskFor_def meshTaskOf_def
        Let_def render_def)

lemma forEach_addAssetTask:
  assumes "list_all hasUrlIfModel as"
  shows "forEach addAssetTask as s =
           (None, s\<lparr>console := console s @ map lineFor as,
                    assetTasks := assetTasks s @ concat (map taskFor as)\<rparr>)"
  using assms
proof (induction as arbitrary: s)
  case Nil
  show ?case by simp
next
  case (Cons a as)
  from Cons.prems have a: "hasUrlIfModel a" and as: "list_all hasUrlIfModel as" by simp_all
  show ?case
    by (simp add: addAssetTask_effect [OF a] Cons.IH [OF as])
qed

lemma AssetManager_loadAssets_effect:
  assumes "list_all hasUrlIfModel as"
  shows "AssetManager_loadAssets as s =
           (None, s\<lparr>console := console s @ map lineFor as,
                    assetTasks := concat (map taskFor as),
                    loadStarted := True\<rparr>)"
  by (simp add: AssetManager_loadAssets_def stmt_def forEach_addAssetTask [OF assms])

text \<open>The tasks of a list of assets as a multiset: the order of the assets does not matter.\<close>

lemma mset_concat_map:
  "mset (concat (map f xs)) = (\<Sum>x\<in>#mset xs. mset (f x))"
  by (induction xs) simp_all

text \<open>
  Claim C5. For an asset list that consists, in any order, of one asset of type
  \<^verbatim>\<open>model\<close> (with a url), one of type \<^verbatim>\<open>texture\<close> and one of type \<^verbatim>\<open>bogus\<close>:
  \<^verbatim>\<open>loadAssets\<close> throws nothing and starts the load. The tasks that the assets manager of
  the engine holds afterwards are exactly two: the mesh task of the model, with its url
  split after the last slash, and the texture task of the texture; so the asset of the
  unknown type is the one that is skipped. The lines added to the console are the two
  that announce the model and the texture, and exactly one error line, which names the
  unknown type: \<^verbatim>\<open>Unsupported asset type: bogus\<close>.
\<close>

theorem unknown_asset_type_is_skipped:
  assumes "mset assetList = {#m, t, b#}"
    and "a_type m = Some ''model''" and "a_url m = Some url"
    and "a_type t = Some ''texture''"
    and "a_type b = Some ''bogus''"
  shows "fst (AssetManager_loadAssets assetList s) = None \<and>
         mset (assetTasks (snd (AssetManager_loadAssets assetList s))) =
           {#MeshTask (a_name m) []
               (substring url 0 (lastIndexOf url CHR ''/'' + 1))
               (substring url (lastIndexOf url CHR ''/'' + 1) (int (length url))),
             TextureTask (a_name t) (a_url t)#} \<and>
         console (snd (AssetManager_loadAssets assetList s)) =
           console s @ newLines s (snd (AssetManager_loadAssets assetList s)) \<and>
         mset (newLines s (snd (AssetManager_loadAssets assetList s))) =
           {#ConsoleLog (''Loading model: '' @ url),
             ConsoleLog (''Loading texture: '' @ render (a_url t)),
             ConsoleError ''[ERROR] Unsupported asset type: bogus''#} \<and>
         loadStarted (snd (AssetManager_loadAssets assetList s))"
proof -
  have "set assetList = {m, t, b}"
    using assms(1) by (metis set_mset_mset set_mset_add_mset_insert set_mset_empty)
  then have ok: "list_all hasUrlIfModel assetList"
    using assms(2-5) by (simp add: list_all_iff hasUrlIfModel_def)
  have tasks: "mset (concat (map taskFor assetList)) =
      {#meshTaskOf (a_name m) url, TextureTask (a_name t) (a_url t)#}"
    using assms by (simp add: mset_concat_map taskFor_def)
  have "mset (map lineFor assetList) = {#lineFor m, lineFor t, lineFor b#}"
    using assms(1) by simp
  then have lines: "mset (map lineFor assetList) =
      {#ConsoleLog (''Loading model: '' @ url),
        ConsoleLog (''Loading texture: '' @ render (a_url t)),
        ConsoleError ''[ERROR] Unsupported asset type: bogus''#}"
    using assms(2-5) by (simp add: lineFor_def render_def)
  show ?thesis
    using tasks lines
    by (simp add: AssetManager_loadAssets_effect [OF ok] newLines_def meshTaskOf_def)
qed

theorem unknown_asset_type_is_skipped_witness:
  "fst (AssetManager_loadAssets sampleAssets freshPage) = None \<and>
   mset (assetTasks (snd (AssetManager_loadAssets sampleAssets freshPage))) =
     {#MeshTask (Some ''room'') [] ''assets/'' ''room.glb'',
       TextureTask (Some ''wood'') (Some ''assets/wood.png'')#} \<and>
   mset (newLines freshPage (snd (AssetManager_loadAssets sampleAssets freshPage))) =
     {#ConsoleLog ''Loading model: assets/room.glb'',
       ConsoleLog ''Loading texture: assets/wood.png'',
       ConsoleError ''[ERROR] Unsupported asset type: bogus''#}"
proof -
  have split: "substring ''assets/room.glb'' 0 (lastIndexOf ''assets/room.glb'' CHR ''/'' + 1) =
        ''assets/''"
      "substring ''assets/room.glb'' (lastIndexOf ''assets/room.glb'' CHR ''/'' + 1) 15 =
        ''room.glb''"
    by (simp_all add: substring_def lastIndexOf_def Let_def)
  have "mset sampleAssets =
      {#\<lparr> a_type = Some ''model'', a_name = Some ''room'', a_url = Some ''assets/room.glb'' \<rparr>,
        \<lparr> a_type = Some ''texture'', a_name = Some ''wood'', a_url = Some ''assets/wood.png'' \<rparr>,
        \<lparr> a_type = Some ''bogus'', a_name = Some ''thing'', a_url = Some ''assets/thing.xyz'' \<rparr>#}"
    by (simp add: sampleAssets_def)
  from unknown_asset_type_is_skipped [OF this, of "''assets/room.glb''" freshPage]
  show ?thesis by (simp add: split render_def)
qed

text \<open>The console of that run: the unknown type is the one error line.\<close>

lemma sampleAssets_console:
  "console (snd (AssetManager_loadAssets sampleAssets freshPage)) =
     [ConsoleLog ''Loading model: assets/room.glb'',
      ConsoleLog ''Loading texture: assets/wood.png'',
      ConsoleError ''[ERROR] Unsupported asset type: bogus'']"
  by (simp add: AssetManager_loadAssets_def stmt_def sampleAssets_def addAssetTask_def
        addModelTask_def addTextureTask_def render_def log_def freshPage_def Let_def)

section \<open>What a statement leaves unchanged\<close>

lemma log_fields [simp]:
  "projectData (log msg isError s) = projectData s"
  "debugMode (log msg isError s) = debugMode s"
  "assetTasks (log msg isError s) = assetTasks s"
  "loadStarted (log msg isError s) = loadStarted s"
  "pending (log msg isError s) = pending s"
  "world (log msg isError s) = world s"
  by (simp_all add: log_def)

lemma updateLoadingProgress_fields [simp]:
  "console (updateLoadingProgress percent msg s) = console s"
  "projectData (updateLoadingProgress percent msg s) = projectData s"
  "debugMode (updateLoadingProgress percent msg s) = debugMode s"
  "assetTasks (updateLoadingProgress percent msg s) = assetTasks s"
  "loadStarted (updateLoadingProgress percent msg s) = loadStarted s"
  "pending (updateLoadingProgress percent msg s) = pending s"
  "world (updateLoadingProgress percent msg s) = world s"
  by (simp_all add: updateLoadingProgress_def Let_def split: option.splits)

lemma phaseLog_log [simp]: "phaseLog (log msg isError s) = phaseLog s"
  by (simp add: log_def)

lemma phaseLog_updateLoadingProgress [simp]:
  "phaseLog (updateLoadingProgress percent msg s) = phaseLog s"
  by (simp add: updateLoadingProgress_def Let_def split: option.splits)

lemma loadingCalls_log [simp]: "loadingCalls (log msg isError s) = loadingCalls s"
  by (simp add: log_def)

lemma loadingText_log [simp]: "loadingText (log msg isError s) = loadingText s"
  by (simp add: log_def)

lemma loadingCalls_updateLoadingProgress [simp]:
  "loadingCalls (updateLoadingProgress percent msg s) = loadingCalls s @ [(percent, msg)]"
  by (simp add: updateLoadingProgress_def Let_def split: option.splits)

lemma loadingText_updateLoadingProgress:
  "msg \<noteq> [] \<Longrightarrow>
   loadingText (updateLoadingProgress percent msg s) =
     (case loadingText s of Some (Some t) \<Rightarrow> Some (Some msg) | other \<Rightarrow> other)"
  by (simp add: updateLoadingProgress_def Let_def split: option.splits)

lemma loadingCalls_readSettings [simp]: "loadingCalls (readSettings s) = loadingCalls s"
  by (simp add: readSettings_def split: option.splits)

text \<open>A property of the state that every step of a \<open>fold\<close> keeps is kept by the \<open>fold\<close>.\<close>

lemma fold_frame:
  assumes "\<And>x s. F (g x s) = F s"
  shows "F (fold g xs s) = F s"
  using assms by (induction xs arbitrary: s) simp_all

lemma meshTask_onSuccess_fields [simp]:
  "projectData (meshTask_onSuccess name n groups s) = projectData s"
  "assetTasks (meshTask_onSuccess name n groups s) = assetTasks s"
  "world (meshTask_onSuccess name n groups s) = world s"
  "pending (meshTask_onSuccess name n groups s) = pending s"
  "phaseLog (meshTask_onSuccess name n groups s) = phaseLog s"
  "loadingCalls (meshTask_onSuccess name n groups s) = loadingCalls s"
  by (simp_all add: meshTask_onSuccess_def fold_frame [where F = projectData]
        fold_frame [where F = assetTasks]
        fold_frame [where F = world] fold_frame [where F = pending]
        fold_frame [where F = phaseLog] fold_frame [where F = loadingCalls])

lemma taskOnSuccess_fields [simp]:
  "projectData (taskOnSuccess call s) = projectData s"
  "assetTasks (taskOnSuccess call s) = assetTasks s"
  "world (taskOnSuccess call s) = world s"
  "pending (taskOnSuccess call s) = pending s"
  "phaseLog (taskOnSuccess call s) = phaseLog s"
  "loadingCalls (taskOnSuccess call s) = loadingCalls s"
  by (cases call; simp add: textureTask_onSuccess_def audioTask_onSuccess_def
        hdrTask_onSuccess_def)+

lemma handleQuiet_fields [simp]:
  "projectData (handleQuiet call s) = projectData s"
  "assetTasks (handleQuiet call s) = assetTasks s"
  "world (handleQuiet call s) = world s"
  "pending (handleQuiet call s) = pending s"
  "phaseLog (handleQuiet call s) = phaseLog s"
  by (cases call; simp add: AssetManager_onProgress_def assetProgress_def Let_def)+

lemma loadingCalls_handleQuiet:
  "loadingCalls (handleQuiet call s) =
     loadingCalls s @ map (\<lambda>p. (reportedPercent p, ''Loading assets...'')) (reportOf call)"
  by (cases call)
     (simp_all add: AssetManager_onProgress_def assetProgress_def reportedPercent_def Let_def)

lemma handleError_fields [simp]:
  "projectData (handleError call s) = projectData s"
  "assetTasks (handleError call s) = assetTasks s"
  "world (handleError call s) = world s"
  "pending (handleError call s) = pending s"
  "phaseLog (handleError call s) = phaseLog s"
  "loadingCalls (handleError call s) = loadingCalls s"
  by (cases call; simp add: meshTask_onError_def AssetManager_onTaskError_def)+

lemma handleCall_fields [simp]:
  "projectData (handleCall call s) = projectData s"
  "assetTasks (handleCall call s) = assetTasks s"
  "world (handleCall call s) = world s"
  "pending (handleCall call s) = pending s"
  "phaseLog (handleCall call s) = phaseLog s"
  by (cases call; simp add: AssetManager_onFinish_def)+

lemma fold_handleQuiet_fields [simp]:
  "projectData (fold handleQuiet calls s) = projectData s"
  "assetTasks (fold handleQuiet calls s) = assetTasks s"
  "world (fold handleQuiet calls s) = world s"
  "pending (fold handleQuiet calls s) = pending s"
  "phaseLog (fold handleQuiet calls s) = phaseLog s"
  by (simp_all add: fold_frame [where F = projectData] fold_frame [where F = assetTasks]
        fold_frame [where F = world] fold_frame [where F = pending]
        fold_frame [where F = phaseLog])

lemma fold_handleCall_fields [simp]:
  "projectData (fold handleCall calls s) = projectData s"
  "assetTasks (fold handleCall calls s) = assetTasks s"
  "world (fold handleCall calls s) = world s"
  "pending (fold handleCall calls s) = pending s"
  "phaseLog (fold handleCall calls s) = phaseLog s"
  by (simp_all add: fold_frame [where F = projectData] fold_frame [where F = assetTasks]
        fold_frame [where F = world] fold_frame [where F = pending]
        fold_frame [where F = phaseLog])

lemma loadingCalls_fold_handleQuiet:
  "loadingCalls (fold handleQuiet calls s) =
     loadingCalls s @
     map (\<lambda>p. (reportedPercent p, ''Loading assets...'')) (concat (map reportOf calls))"
  by (induction calls arbitrary: s) (simp_all add: loadingCalls_handleQuiet)

text \<open>The \<^verbatim>\<open>await\<close> of the load: how it ends, the world it leaves, and what it adds to the
  calls of \<^verbatim>\<open>updateLoadingProgress\<close> when the load finishes.\<close>

lemma awaitLoad_run:
  assumes "awaitLoad H s = (thrown, s')"
  shows "thrown = (case ending (fst (assetsManager_load H (assetTasks s) (world s))) of
                     OnFinish \<Rightarrow> None
                   | OnError call sameTurn laterTurns \<Rightarrow> Some (rejectedWith call)) \<and>
         world s' = snd (assetsManager_load H (assetTasks s) (world s)) \<and>
         projectData s' = projectData s \<and>
         assetTasks s' = assetTasks s \<and>
         phaseLog s' = phaseLog s"
  using assms
  by (auto simp: awaitLoad_def Let_def split_def AssetManager_onFinish_def
        split: loadEnding.splits)

lemma loadingCalls_awaitLoad:
  assumes "awaitLoad H s = (None, s')"
  shows "loadingCalls s' = loadingCalls s @
     map (\<lambda>p. (reportedPercent p, ''Loading assets...''))
       (reports (fst (assetsManager_load H (assetTasks s) (world s))))"
  using assms
  by (auto simp: awaitLoad_def Let_def split_def AssetManager_onFinish_def reports_def
        loadingCalls_fold_handleQuiet split: loadEnding.splits)

lemma loadingCalls_runPhase:
  "runPhase H phase s = (thrown, s') \<Longrightarrow> loadingCalls s' = loadingCalls s"
  by (auto simp: runPhase_def Let_def split: prod.splits)

lemma loadingCalls_hostStep:
  "hostStep f s = (thrown, s') \<Longrightarrow> loadingCalls s' = loadingCalls s"
  by (auto simp: hostStep_def Let_def split: prod.splits)

lemma loadingCalls_loadProject:
  "loadProject H projectFile s = (thrown, s') \<Longrightarrow> loadingCalls s' = loadingCalls s"
  by (auto simp: loadProject_def loadJSON_def Let_def
        split: prod.splits option.splits sum.splits)

lemma loadJSON_frame:
  "loadingCalls (snd (loadJSON H url s)) = loadingCalls s \<and>
   loadingText (snd (loadJSON H url s)) = loadingText s"
  by (simp add: loadJSON_def Let_def split: sum.splits)

section \<open>Scene initialization\<close>

text \<open>The asset list of \<^verbatim>\<open>Scene.loadAssets\<close> has only models with a url, so that a task is
  queued for each of them.\<close>

lemma glbAssets_ok: "list_all hasUrlIfModel (glbAssets glb_groups)"
  by (auto simp: glbAssets_def list_all_iff hasUrlIfModel_def)

lemma taskFor_glbAssets:
  "concat (map taskFor (glbAssets glb_groups)) =
     map (\<lambda>(i, glbFile). meshTaskOf (Some (''model_'' @ decimal i)) (''assets/'' @ glbFile))
       (zip [0..<length glb_groups] glb_groups)"
proof -
  have "concat (map (\<lambda>p. taskFor \<lparr> a_type = Some ''model'',
                                   a_name = Some (''model_'' @ decimal (fst p)),
                                   a_url = Some (''assets/'' @ snd p) \<rparr>) ps) =
        map (\<lambda>p. meshTaskOf (Some (''model_'' @ decimal (fst p))) (''assets/'' @ snd p)) ps"
    for ps :: "(nat \<times> string) list"
    by (induction ps) (simp_all add: taskFor_def)
  then show ?thesis
    by (simp add: glbAssets_def split_def comp_def)
qed

lemma Scene_loadAssets_run:
  assumes "Scene_loadAssets H s = (thrown, s')"
  shows "assetsOutcome H (projectData s) (world s) = (thrown, world s') \<and>
         projectData s' = projectData s \<and>
         phaseLog s' = phaseLog s @ [(Assets, thrown)]"
proof (cases "firstScene (projectData s)")
  case (Inl e)
  with assms show ?thesis
    by (auto simp: Scene_loadAssets_def assetsOutcome_def)
next
  case (Inr sceneData)
  define files where
    "files = (case sd_glb_groups sceneData of None \<Rightarrow> [] | Some glb_groups \<Rightarrow> glb_groups)"
  have list: "(case sd_glb_groups sceneData of None \<Rightarrow> [] | Some glb_groups \<Rightarrow> glbAssets glb_groups)
      = glbAssets files"
    by (simp add: files_def glbAssets_def split: option.splits)
  define s1 where
    "s1 = s\<lparr>console := console s @ map lineFor (glbAssets files),
            assetTasks := concat (map taskFor (glbAssets files)),
            loadStarted := True\<rparr>"
  obtain t s2 where await: "awaitLoad H s1 = (t, s2)"
    by (cases "awaitLoad H s1")
  from assms have result: "thrown = t" "s' = s2\<lparr>phaseLog := phaseLog s2 @ [(Assets, t)]\<rparr>"
    by (auto simp: Scene_loadAssets_def Inr list Let_def
          AssetManager_loadAssets_effect [OF glbAssets_ok] s1_def [symmetric] await
          split: option.splits)
  have s1: "assetTasks s1 =
      map (\<lambda>(i, glbFile). meshTaskOf (Some (''model_'' @ decimal i)) (''assets/'' @ glbFile))
        (zip [0..<length files] files)"
    "world s1 = world s" "projectData s1 = projectData s" "phaseLog s1 = phaseLog s"
    by (simp_all add: s1_def taskFor_glbAssets)
  from awaitLoad_run [OF await] show ?thesis
    by (simp add: result s1 assetsOutcome_def Inr files_def [symmetric] Let_def split_def)
qed

lemma Scene_loadAssets_calls:
  assumes "Scene_loadAssets H s = (None, s')"
  shows "loadingCalls s' = loadingCalls s @
           map (\<lambda>p. (reportedPercent p, ''Loading assets...''))
             (reports (fst (assetsManager_load H (assetTasks s') (world s)))) \<and>
         assetTasks s' =
           (case firstScene (projectData s) of
              Inl e \<Rightarrow> assetTasks s
            | Inr sceneData \<Rightarrow>
                concat (map taskFor
                  (glbAssets (case sd_glb_groups sceneData of
                                None \<Rightarrow> [] | Some glb_groups \<Rightarrow> glb_groups))))"
proof (cases "firstScene (projectData s)")
  case (Inl e)
  with assms show ?thesis
    by (auto simp: Scene_loadAssets_def)
next
  case (Inr sceneData)
  define files where
    "files = (case sd_glb_groups sceneData of None \<Rightarrow> [] | Some glb_groups \<Rightarrow> glb_groups)"
  have list: "(case sd_glb_groups sceneData of None \<Rightarrow> [] | Some glb_groups \<Rightarrow> glbAssets glb_groups)
      = glbAssets files"
    by (simp add: files_def glbAssets_def split: option.splits)
  define s1 where
    "s1 = s\<lparr>console := console s @ map lineFor (glbAssets files),
            assetTasks := concat (map taskFor (glbAssets files)),
            loadStarted := True\<rparr>"
  obtain t s2 where await: "awaitLoad H s1 = (t, s2)"
    by (cases "awaitLoad H s1")
  from assms have result: "t = None" "s' = s2\<lparr>phaseLog := phaseLog s2 @ [(Assets, t)]\<rparr>"
    by (auto simp: Scene_loadAssets_def Inr list Let_def
          AssetManager_loadAssets_effect [OF glbAssets_ok] s1_def [symmetric] await
          split: option.splits)
  have s1: "assetTasks s1 = concat (map taskFor (glbAssets files))"
    "world s1 = world s" "loadingCalls s1 = loadingCalls s"
    by (simp_all add: s1_def)
  from await result have await': "awaitLoad H s1 = (None, s2)" by simp
  from awaitLoad_run [OF await] loadingCalls_awaitLoad [OF await'] show ?thesis
    by (simp add: result s1 Inr files_def [symmetric])
qed

lemma runPhase_run:
  assumes "runPhase H phase s = (thrown, s')"
  shows "phaseBody H phase (projectData s) (world s) = (thrown, world s') \<and>
         projectData s' = projectData s \<and>
         assetTasks s' = assetTasks s \<and>
         phaseLog s' = phaseLog s @ [(phase, thrown)]"
  using assms by (auto simp: runPhase_def Let_def split: prod.splits)


lemma runPhase_log:
  "runPhase H phase s = (thrown, s') \<Longrightarrow> phaseLog s' = phaseLog s @ [(phase, thrown)]"
  by (auto simp: runPhase_def Let_def split: prod.splits)

lemma hostStep_run:
  assumes "hostStep f s = (thrown, s')"
  shows "f (world s) = (thrown, world s') \<and>
         projectData s' = projectData s \<and>
         assetTasks s' = assetTasks s"
  using assms by (auto simp: hostStep_def Let_def split: prod.splits)

lemma Scene_loadAssets_log:
  "Scene_loadAssets H s = (thrown, s') \<Longrightarrow> phaseLog s' = phaseLog s @ [(Assets, thrown)]"
  using Scene_loadAssets_run by blast

lemma Scene_initialize_log:
  assumes "Scene_initialize H s = (thrown, s')"
  shows "phaseLog s' = phaseLog s @ ranPhases s s' \<and>
         ranPhases s s' \<noteq> [] \<and>
         map fst (ranPhases s s') = take (length (ranPhases s s')) orderOfPhases \<and>
         list_all (\<lambda>entry. snd entry = None) (butlast (ranPhases s s')) \<and>
         snd (last (ranPhases s s')) = thrown \<and>
         (thrown = None \<longrightarrow> length (ranPhases s s') = 5)"
  using assms
  by (auto simp: Scene_initialize_def stmt_def ranPhases_def orderOfPhases_def
        split: prod.splits option.splits dest!: runPhase_log Scene_loadAssets_log)

lemma Scene_initialize_phases:
  assumes "Scene_initialize H s = (thrown, s')"
  shows "phasesInOrder H (projectData s) orderOfPhases (world s) = (thrown, world s')"
  using assms
  by (auto simp: Scene_initialize_def stmt_def orderOfPhases_def phaseStep_def
        split: prod.splits option.splits dest!: runPhase_run Scene_loadAssets_run)

text \<open>
  Claim C8. Whatever the host does, \<^verbatim>\<open>Scene.initialize\<close> ends as performing the phases
  environment, camera, assets, lights, interaction in this order ends, each phase in the
  world of the engine that the phase before it has left: it throws what the first
  failing phase throws, with no phase performed after that one and the world as that
  phase has left it, and it ends normally, in the world that the interaction phase has
  left, when no phase throws. In the phase log: the phases that were run are an initial
  part of the five, in this order and without a gap; every phase before the last one
  run ended normally; the way the last one ended is the way \<^verbatim>\<open>Scene.initialize\<close> ends; and
  when nothing is thrown all five phases were run.
\<close>

theorem Scene_initialize_phase_order:
  assumes "Scene_initialize H s = (thrown, s')"
  shows "phasesInOrder H (projectData s) orderOfPhases (world s) = (thrown, world s') \<and>
         phaseLog s' = phaseLog s @ ranPhases s s' \<and>
         ranPhases s s' \<noteq> [] \<and>
         map fst (ranPhases s s') = take (length (ranPhases s s')) orderOfPhases \<and>
         list_all (\<lambda>entry. snd entry = None) (butlast (ranPhases s s')) \<and>
         snd (last (ranPhases s s')) = thrown \<and>
         (thrown = None \<longrightarrow> length (ranPhases s s') = 5)"
  using Scene_initialize_phases [OF assms] Scene_initialize_log [OF assms]
  by blast

text \<open>On the host that lists the phases it is asked to perform: all five in order; and
  with a light phase that throws, the four up to it, and its exception.\<close>

theorem Scene_initialize_phase_order_witness:
  "fst (Scene_initialize tracingHost tracedPage) = None \<and>
   world (snd (Scene_initialize tracingHost tracedPage)) =
     [Environment, Camera, Assets, Lights, Interaction] \<and>
   map fst (ranPhases tracedPage (snd (Scene_initialize tracingHost tracedPage))) =
     [Environment, Camera, Assets, Lights, Interaction] \<and>
   fst (Scene_initialize tracingDarkHost tracedPage) = Some (Error ''no lights'') \<and>
   world (snd (Scene_initialize tracingDarkHost tracedPage)) =
     [Environment, Camera, Assets, Lights]"
proof -
  have page: "projectData tracedPage = Some sampleProject" "world tracedPage = []"
    by (simp_all add: tracedPage_def)
  have light: "phasesInOrder tracingHost (Some sampleProject) orderOfPhases [] =
      (None, [Environment, Camera, Assets, Lights, Interaction])"
    by (simp add: orderOfPhases_def phaseStep_def tracingHost_def assetsOutcome_def
          firstScene_def sampleProject_def Let_def)
  have dark: "phasesInOrder tracingDarkHost (Some sampleProject) orderOfPhases [] =
      (Some (Error ''no lights''), [Environment, Camera, Assets, Lights])"
    by (simp add: orderOfPhases_def phaseStep_def tracingHost_def tracingDarkHost_def
          assetsOutcome_def firstScene_def sampleProject_def Let_def)
  have run: "Scene_initialize H tracedPage =
      (fst (Scene_initialize H tracedPage), snd (Scene_initialize H tracedPage))" for H
    by simp
  let ?light = "Scene_initialize tracingHost tracedPage"
  let ?dark = "Scene_initialize tracingDarkHost tracedPage"
  from Scene_initialize_phase_order [OF run [of tracingHost]]
  have "phasesInOrder tracingHost (projectData tracedPage) orderOfPhases (world tracedPage) =
          (fst ?light, world (snd ?light))"
    and entries: "map fst (ranPhases tracedPage (snd ?light)) =
          take (length (ranPhases tracedPage (snd ?light))) orderOfPhases"
    and all: "fst ?light = None \<longrightarrow> length (ranPhases tracedPage (snd ?light)) = 5"
    by blast+
  then have l: "fst ?light = None"
      "world (snd ?light) = [Environment, Camera, Assets, Lights, Interaction]"
    by (simp_all add: page light)
  from entries all l(1)
  have e: "map fst (ranPhases tracedPage (snd ?light)) =
      [Environment, Camera, Assets, Lights, Interaction]"
    by (simp add: orderOfPhases_def)
  from Scene_initialize_phase_order [OF run [of tracingDarkHost]]
  have "phasesInOrder tracingDarkHost (projectData tracedPage) orderOfPhases
          (world tracedPage) = (fst ?dark, world (snd ?dark))"
    by blast
  then have d: "fst ?dark = Some (Error ''no lights'')"
      "world (snd ?dark) = [Environment, Camera, Assets, Lights]"
    by (simp_all add: page dark)
  from l e d show ?thesis by simp
qed

text \<open>Read phase by phase: what a phase throws, after the phases before it have ended
  normally, is what \<^verbatim>\<open>Scene.initialize\<close> throws, in the world as that phase has left it; the
  phases after it are not performed.\<close>

lemma phasesInOrder_failure:
  assumes "phasesInOrder H pd earlier w = (None, w0)"
    and "phaseStep H pd phase w0 = (Some e, w1)"
  shows "phasesInOrder H pd (earlier @ phase # later) w = (Some e, w1)"
  using assms
  by (induction earlier arbitrary: w) (auto split: prod.splits option.splits)

lemma failure_in_a_phase_propagates:
  assumes "orderOfPhases = earlier @ phase # later"
    and "phasesInOrder H (projectData s) earlier (world s) = (None, w0)"
    and "phaseStep H (projectData s) phase w0 = (Some e, w1)"
  shows "fst (Scene_initialize H s) = Some e \<and> world (snd (Scene_initialize H s)) = w1"
proof -
  have "Scene_initialize H s = (fst (Scene_initialize H s), snd (Scene_initialize H s))"
    by simp
  from Scene_initialize_phases [OF this] phasesInOrder_failure [OF assms(2,3), of later]
  show ?thesis
    by (simp add: assms(1))
qed

text \<open>A load that has finished leaves no call to come.\<close>

lemma pending_awaitLoad:
  assumes "awaitLoad H s = (None, s')"
  shows "pending s' = pending s"
  using assms
  by (auto simp: awaitLoad_def Let_def split_def AssetManager_onFinish_def
        split: loadEnding.splits)

text \<open>When the light phase throws, the interaction phase is not run, and the application
  shows the message of the exception.\<close>

lemma darkScene:
  "fst (Scene_initialize darkHost loadedPage) = Some (Error ''no lights'') \<and>
   phaseLog (snd (Scene_initialize darkHost loadedPage)) =
     [(Environment, None), (Camera, None), (Assets, None),
      (Lights, Some (Error ''no lights''))]"
  by (simp add: stmt_def sampleHost_def loadedPage_def darkHost_def
        Scene_initialize_def runPhase_def Scene_loadAssets_def firstScene_def
        sampleProject_def AssetManager_loadAssets_def glbAssets_def addAssetTask_def
        addModelTask_def awaitLoad_def AssetManager_onProgress_def assetProgress_def
        engineCalls_def AssetManager_onFinish_def meshTask_onSuccess_def freshPage_def
        Let_def)

lemma darkRun:
  "loadingText (initialize darkHost ''assets/project.json'' freshPage) =
     Some (Some ''Error: no lights'')"
  by (simp add: initialize_def initializeBody_def loadProject_def loadJSON_def hostStep_def
        readSettings_def stmt_def sampleHost_def darkHost_def
        Scene_initialize_def runPhase_def Scene_loadAssets_def firstScene_def
        sampleProject_def AssetManager_loadAssets_def glbAssets_def addAssetTask_def
        addModelTask_def awaitLoad_def AssetManager_onProgress_def assetProgress_def
        engineCalls_def AssetManager_onFinish_def meshTask_onSuccess_def freshPage_def
        Let_def loadingText_updateLoadingProgress)

text \<open>What \<^verbatim>\<open>Scene.initialize\<close> throws is caught by \<^verbatim>\<open>initialize\<close>, which shows its message.\<close>

lemma thrown_value_is_shown:
  assumes "initializeBody H projectFile s = (Some e, s')"
  shows "loadingCalls (initialize H projectFile s) =
           loadingCalls s' @ [(0, ''Error: '' @ message e)] \<and>
         console (initialize H projectFile s) =
           console s' @ [ConsoleError (''Initialization error: '' @ message e)]"
  using assms by (simp add: initialize_def)

lemma Scene_failure_reaches_the_catch:
  assumes "initializeBody H projectFile s = (thrown, s')"
    and "loadProject H projectFile
           (updateLoadingProgress 10 ''Loading project configuration...'' s) = (None, s1)"
    and "hostStep (new_Engine H)
           (readSettings (updateLoadingProgress 20 ''Creating engine...'' s1)) = (None, s2)"
    and "hostStep (new_Scene H) (updateLoadingProgress 30 ''Creating scene...'' s2) = (None, s3)"
    and "Scene_initialize H s3 = (Some e, s4)"
  shows "thrown = Some e \<and> s' = s4 \<and>
         loadingCalls (initialize H projectFile s) =
           loadingCalls s4 @ [(0, ''Error: '' @ message e)]"
proof -
  from assms(2-5) have "initializeBody H projectFile s = (Some e, s4)"
    by (simp add: initializeBody_def stmt_def)
  with assms(1) show ?thesis
    by (auto simp: initialize_def)
qed

section \<open>Manifest failure\<close>

lemma loadJSON_fails:
  "fetchFails H url \<Longrightarrow> fst (loadJSON H url s) = None"
  by (auto simp: fetchFails_def loadJSON_def Let_def isl_def
        split: fetchOutcome.splits bodyOutcome.splits sum.splits)

lemma loadProject_fails:
  assumes "fetchFails H projectFile"
  shows "fst (loadProject H projectFile s) = Some (Error ''Failed to load project configuration'')
         \<and> loadingCalls (snd (loadProject H projectFile s)) = loadingCalls s
         \<and> loadingText (snd (loadProject H projectFile s)) = loadingText s"
  using loadJSON_fails [OF assms, of s] loadJSON_frame [of H projectFile s]
  by (simp add: loadProject_def Let_def split_def)

lemma initializeBody_fails:
  assumes "fetchFails H projectFile"
  shows "fst (initializeBody H projectFile s) =
           Some (Error ''Failed to load project configuration'') \<and>
         loadingCalls (snd (initializeBody H projectFile s)) =
           loadingCalls s @ [(10, ''Loading project configuration...'')] \<and>
         loadingText (snd (initializeBody H projectFile s)) =
           (case loadingText s of
              Some (Some t) \<Rightarrow> Some (Some ''Loading project configuration...'')
            | other \<Rightarrow> other)"
  using loadProject_fails [OF assms,
      of "updateLoadingProgress 10 ''Loading project configuration...'' s"]
  by (cases "loadProject H projectFile
               (updateLoadingProgress 10 ''Loading project configuration...'' s)")
     (simp add: initializeBody_def stmt_def loadingText_updateLoadingProgress)

text \<open>
  Claim C6. Whenever the manifest fetch fails, \<^verbatim>\<open>loadJSON\<close> returns \<^verbatim>\<open>null\<close>; the body of
  \<^verbatim>\<open>initialize\<close> throws the error "Failed to load project configuration"; \<^verbatim>\<open>initialize\<close>
  catches it, so that it returns with two calls of \<^verbatim>\<open>updateLoadingProgress\<close> made, the
  second with percentage 0 and the error text; and the text of the loading screen, when
  the page has one, is that error text.
\<close>

theorem manifest_failure_is_reported:
  assumes "fetchFails H projectFile"
  shows "fst (loadJSON H projectFile s) = None \<and>
         fst (initializeBody H projectFile s) =
           Some (Error ''Failed to load project configuration'') \<and>
         loadingCalls (initialize H projectFile s) =
           loadingCalls s @ [(10, ''Loading project configuration...''),
                             (0, ''Error: Failed to load project configuration'')] \<and>
         loadingText (initialize H projectFile s) =
           (case loadingText s of
              Some (Some t) \<Rightarrow> Some (Some ''Error: Failed to load project configuration'')
            | other \<Rightarrow> other)"
  using loadJSON_fails [OF assms, of s] initializeBody_fails [OF assms, of s]
  by (cases "initializeBody H projectFile s")
     (auto simp: initialize_def loadingText_updateLoadingProgress split: option.splits)

theorem manifest_failure_is_reported_witness:
  "fst (loadJSON offlineHost ''assets/project.json'' freshPage) = None \<and>
   map fst (loadingCalls (initialize offlineHost ''assets/project.json'' freshPage)) = [10, 0] \<and>
   loadingText (initialize offlineHost ''assets/project.json'' freshPage) =
     Some (Some ''Error: Failed to load project configuration'')"
proof -
  have "fetchFails offlineHost ''assets/project.json''"
    by (simp add: fetchFails_def offlineHost_def sampleHost_def)
  from manifest_failure_is_reported [OF this, of freshPage] show ?thesis
    by (simp add: freshPage_def)
qed

section \<open>Progress reporting\<close>

text \<open>The calls of \<^verbatim>\<open>updateLoadingProgress\<close> in a run of \<^verbatim>\<open>Scene.initialize\<close>, and in a run
  of the body of \<^verbatim>\<open>initialize\<close>, in which nothing is thrown.\<close>

lemma Scene_initialize_calls:
  assumes "Scene_initialize H s = (None, s')"
  shows "loadingCalls s' = loadingCalls s @
           [(40, ''Setting up camera...''), (50, ''Loading assets...'')] @
           map (\<lambda>p. (reportedPercent p, ''Loading assets...''))
             (reports (fst (assetsManager_load H (assetTasks s')
                (snd (phasesInOrder H (projectData s) [Environment, Camera] (world s)))))) @
           [(70, ''Setting up lights...''), (80, ''Setting up interactions...'')] \<and>
         projectData s' = projectData s"
proof -
  from assms obtain s1 s2 s3 s4 where
    r1: "runPhase H Environment (log ''Creating scene'' False s) = (None, s1)" and
    r2: "runPhase H Camera (updateLoadingProgress 40 ''Setting up camera...''
        (s1\<lparr>assetTasks := [], loadStarted := False\<rparr>)) = (None, s2)" and
    r3: "Scene_loadAssets H (updateLoadingProgress 50 ''Loading assets...'' s2) = (None, s3)" and
    r4: "runPhase H Lights (updateLoadingProgress 70 ''Setting up lights...'' s3) = (None, s4)" and
    r5: "runPhase H Interaction (updateLoadingProgress 80 ''Setting up interactions...'' s4) =
       (None, s')"
    unfolding Scene_initialize_def
    by (auto simp: stmt_def split: prod.splits option.splits)
  from runPhase_run [OF r1] have p1:
    "phaseBody H Environment (projectData s) (world s) = (None, world s1)"
    "projectData s1 = projectData s"
    by simp_all
  from runPhase_run [OF r2] have p2:
    "phaseBody H Camera (projectData s) (world s1) = (None, world s2)"
    "projectData s2 = projectData s"
    by (simp_all add: p1)
  have start: "snd (phasesInOrder H (projectData s) [Environment, Camera] (world s)) = world s2"
    by (simp add: phaseStep_def p1 p2)
  from Scene_loadAssets_run [OF r3] have p3: "projectData s3 = projectData s"
    by (simp add: p2)
  from runPhase_run [OF r4] runPhase_run [OF r5]
  have tasks: "assetTasks s' = assetTasks s3" and pd: "projectData s' = projectData s"
    by (simp_all add: p3)
  have c1: "loadingCalls s1 = loadingCalls s"
    using loadingCalls_runPhase [OF r1] by simp
  have c2: "loadingCalls s2 = loadingCalls s @ [(40, ''Setting up camera...'')]"
    using loadingCalls_runPhase [OF r2] by (simp add: updateLoadingProgress_def Let_def c1
      split: option.splits)
  from Scene_loadAssets_calls [OF r3]
  have c3: "loadingCalls s3 = loadingCalls s @
           [(40, ''Setting up camera...''), (50, ''Loading assets...'')] @
           map (\<lambda>p. (reportedPercent p, ''Loading assets...''))
             (reports (fst (assetsManager_load H (assetTasks s') (world s2))))"
    by (simp add: c2 tasks)
  have c4: "loadingCalls s4 = loadingCalls s3 @ [(70, ''Setting up lights...'')]"
    using loadingCalls_runPhase [OF r4] by simp
  have c5: "loadingCalls s' = loadingCalls s4 @ [(80, ''Setting up interactions...'')]"
    using loadingCalls_runPhase [OF r5] by simp
  show ?thesis
    unfolding start by (simp add: c5 c4 c3 pd)
qed

lemma loadProject_run:
  assumes "loadProject H projectFile s = (thrown, s')"
  shows "world s' = world s \<and> loadingCalls s' = loadingCalls s"
  using assms
  by (auto simp: loadProject_def loadJSON_def Let_def
        split: prod.splits option.splits sum.splits fetchOutcome.splits bodyOutcome.splits
          if_splits)

lemma readSettings_fields [simp]:
  "world (readSettings s) = world s"
  "projectData (readSettings s) = projectData s"
  by (simp_all add: readSettings_def split: option.splits)

lemma initializeBody_calls:
  assumes "initializeBody H projectFile s = (None, s')"
  shows "loadingCalls s' = loadingCalls s @
           [(10, ''Loading project configuration...''), (20, ''Creating engine...''),
            (30, ''Creating scene...''),
            (40, ''Setting up camera...''), (50, ''Loading assets...'')] @
           map (\<lambda>p. (reportedPercent p, ''Loading assets...''))
             (reports (loadOfRun H s s')) @
           [(70, ''Setting up lights...''), (80, ''Setting up interactions...''),
            (90, ''Starting render loop...''), (100, ''Ready!'')]"
proof -
  from assms obtain s1 s2 s3 s4 s5 where
    r1: "loadProject H projectFile
       (updateLoadingProgress 10 ''Loading project configuration...'' s) = (None, s1)" and
    r2: "hostStep (new_Engine H)
       (readSettings (updateLoadingProgress 20 ''Creating engine...'' s1)) = (None, s2)" and
    r3: "hostStep (new_Scene H) (updateLoadingProgress 30 ''Creating scene...'' s2) = (None, s3)"
      and
    r4: "Scene_initialize H s3 = (None, s4)" and
    r5: "hostStep (runRenderLoop H
         (debugMode (updateLoadingProgress 90 ''Starting render loop...'' s4)))
       (updateLoadingProgress 90 ''Starting render loop...'' s4) = (None, s5)" and
    r6: "s' = updateLoadingProgress 100 ''Ready!'' s5"
    unfolding initializeBody_def
    by (auto simp: stmt_def split: prod.splits option.splits)
  from loadProject_run [OF r1] have w1: "world s1 = world s"
    and c1: "loadingCalls s1 = loadingCalls s @ [(10, ''Loading project configuration...'')]"
    by simp_all
  from hostStep_run [OF r2] have w2: "new_Engine H (world s) = (None, world s2)"
    by (simp add: w1)
  from hostStep_run [OF r3] have w3: "new_Scene H (world s2) = (None, world s3)"
    by simp
  have start: "snd (new_Scene H (snd (new_Engine H (world s)))) = world s3"
    by (simp add: w2 w3)
  from hostStep_run [OF r5] r6 have tasks: "assetTasks s' = assetTasks s4"
    and pd5: "projectData s' = projectData s4"
    by simp_all
  from Scene_initialize_calls [OF r4] have pd: "projectData s' = projectData s3"
    and c4: "loadingCalls s4 = loadingCalls s3 @
           [(40, ''Setting up camera...''), (50, ''Loading assets...'')] @
           map (\<lambda>p. (reportedPercent p, ''Loading assets...''))
             (reports (loadOfRun H s s')) @
           [(70, ''Setting up lights...''), (80, ''Setting up interactions...'')]"
    by (simp_all add: loadOfRun_def start tasks pd5)
  have c2: "loadingCalls s2 = loadingCalls s1 @ [(20, ''Creating engine...'')]"
    using loadingCalls_hostStep [OF r2] by simp
  have c3: "loadingCalls s3 = loadingCalls s2 @ [(30, ''Creating scene...'')]"
    using loadingCalls_hostStep [OF r3] by simp
  have c5: "loadingCalls s5 = loadingCalls s4 @ [(90, ''Starting render loop...'')]"
    using loadingCalls_hostStep [OF r5] by simp
  show ?thesis
    by (simp add: r6 c5 c4 c3 c2 c1)
qed

lemma reportedPercent_fraction: "reportedPercent p = 50 + \<lfloor>fractionDone p * 20\<rfloor>"
  by (simp only: reportedPercent_def fractionDone_def)

lemma reportedPercent_bounds:
  assumes "fst p \<le> snd p" and "0 < snd p"
  shows "50 \<le> reportedPercent p \<and> reportedPercent p \<le> 70"
proof -
  have "0 \<le> fractionDone p" and "fractionDone p \<le> 1"
    using assms by (simp_all add: fractionDone_def)
  then have "0 \<le> fractionDone p * 20" and "fractionDone p * 20 \<le> 20" by simp_all
  then have "0 \<le> \<lfloor>fractionDone p * 20\<rfloor>" and "\<lfloor>fractionDone p * 20\<rfloor> \<le> 20"
    by linarith+
  then show ?thesis unfolding reportedPercent_fraction by linarith
qed

lemma reportedPercent_mono:
  assumes "fractionDone a \<le> fractionDone b"
  shows "reportedPercent a \<le> reportedPercent b"
proof -
  have "fractionDone a * 20 \<le> fractionDone b * 20" using assms by simp
  then have "\<lfloor>fractionDone a * 20\<rfloor> \<le> \<lfloor>fractionDone b * 20\<rfloor>" by (rule floor_mono)
  then show ?thesis unfolding reportedPercent_fraction by linarith
qed

lemma reportedPercent_all_done:
  assumes "fst p = 0" and "0 < snd p"
  shows "reportedPercent p = 70"
  using assms by (simp add: reportedPercent_def)

lemma sorted_reportedPercent:
  assumes "sorted (map fractionDone rs)"
  shows "sorted (map reportedPercent rs)"
  using assms
  by (induction rs) (auto intro: reportedPercent_mono)

lemma sorted_percentages:
  assumes "reportsOrdered rs"
  shows "sorted ([10, 20, 30, 40, 50] @ map reportedPercent rs @ [70, 80, 90, 100])"
proof -
  have b: "\<forall>p\<in>set rs. 50 \<le> reportedPercent p \<and> reportedPercent p \<le> 70"
    using assms reportedPercent_bounds by (auto simp: reportsOrdered_def list_all_iff)
  have s: "sorted (map reportedPercent rs)"
    using assms sorted_reportedPercent by (simp add: reportsOrdered_def)
  show ?thesis
    using b s by (auto simp: sorted_append)
qed

lemma repeated_percentage:
  assumes "rs \<noteq> []" and "fst (last rs) = 0" and "0 < snd (last rs)"
  shows "\<not> sorted_wrt (<) ([10, 20, 30, 40, 50] @ map reportedPercent rs @ [70, 80, 90, 100])"
proof -
  from assms(1) obtain rs' where rs: "rs = rs' @ [last rs]"
    by (metis append_butlast_last_id)
  have "reportedPercent (last rs) = 70"
    using assms(2,3) by (rule reportedPercent_all_done)
  then have "map reportedPercent rs @ [70, 80, 90, 100] =
      map reportedPercent rs' @ [70, 70, 80, 90, 100]"
    by (subst rs) simp
  then show ?thesis
    by (simp add: sorted_wrt_append)
qed

lemma fractionDone_engine: "k \<le> n \<Longrightarrow> fractionDone (n - k, n) = real k / real n"
  by (simp add: fractionDone_def of_nat_diff)

lemma reportsOrdered_engineReports: "reportsOrdered (engineReports n)"
proof -
  have "sorted_wrt (\<lambda>a b. real a / real n \<le> real b / real n) [1..<Suc n]"
  proof (rule sorted_wrt_mono_rel [where P = "(\<le>)"])
    show "sorted [1..<Suc n]" by (rule sorted_upt)
  next
    fix a b :: nat
    assume "a \<le> b"
    then show "real a / real n \<le> real b / real n" by (simp add: divide_right_mono)
  qed
  then have sorted: "sorted (map (\<lambda>k. real k / real n) [1..<Suc n])"
    by (simp only: sorted_map)
  have "map fractionDone (engineReports n) =
      map (\<lambda>k. fractionDone (n - k, n)) [1..<Suc n]"
    by (simp only: engineReports_def map_map comp_def)
  also have "\<dots> = map (\<lambda>k. real k / real n) [1..<Suc n]"
    by (rule map_cong [OF refl]) (simp add: fractionDone_engine del: upt_Suc)
  finally have eq: "map fractionDone (engineReports n) =
      map (\<lambda>k. real k / real n) [1..<Suc n]" .
  have "list_all (\<lambda>p. fst p \<le> snd p \<and> 0 < snd p) (engineReports n)"
    by (auto simp: engineReports_def list_all_iff simp del: upt_Suc)
  moreover have "sorted (map fractionDone (engineReports n))"
    unfolding eq by (rule sorted)
  ultimately show ?thesis
    by (simp only: reportsOrdered_def simp_thms)
qed

text \<open>The reports of the sample assets manager are those of the engine.\<close>

lemma reports_engineCalls:
  "reports \<lparr> before = engineCalls tasks, ending = e \<rparr> = engineReports (length tasks)"
proof -
  have "concat (map reportOf (concat (map (\<lambda>(k, task). [Success (loadedCall task), Report (n - k) n])
          (zip ks ts)))) = map (\<lambda>k. (n - k, n)) ks"
    if "length ks = length ts" for ks :: "nat list" and ts :: "assetTask list" and n
    using that by (induction ks ts rule: list_induct2) simp_all
  from this [of "[1..<Suc (length tasks)]" tasks "length tasks"] show ?thesis
    by (simp add: reports_def engineCalls_def engineReports_def del: upt_Suc)
qed

lemma sampleRun:
  "fst (initializeBody sampleHost ''assets/project.json'' freshPage) = None \<and>
   map fst (loadingCalls (snd (initializeBody sampleHost ''assets/project.json'' freshPage))) =
     [10, 20, 30, 40, 50, 70, 70, 80, 90, 100] \<and>
   assetTasks (snd (initializeBody sampleHost ''assets/project.json'' freshPage)) =
     [MeshTask (Some ''model_0'') [] ''assets/'' ''room.glb'']"
  by (simp add: initializeBody_def stmt_def loadProject_def loadJSON_def sampleHost_def
        hostStep_def Scene_initialize_def runPhase_def Scene_loadAssets_def firstScene_def
        sampleProject_def AssetManager_loadAssets_def glbAssets_def addAssetTask_def
        addModelTask_def awaitLoad_def AssetManager_onProgress_def assetProgress_def
        engineCalls_def AssetManager_onFinish_def meshTask_onSuccess_def
        freshPage_def readSettings_def Let_def substring_def lastIndexOf_def decimal.simps)

lemma sampleRun_initialize:
  "initialize sampleHost ''assets/project.json'' freshPage =
     snd (initializeBody sampleHost ''assets/project.json'' freshPage)"
  using sampleRun
  by (cases "initializeBody sampleHost ''assets/project.json'' freshPage")
     (simp add: initialize_def)

text \<open>
  Claim C4, as the specification states it: a full run emits strictly increasing
  percentages. The run of the sample host, with one model file, emits
  \<open>10, 20, 30, 40, 50, 70, 70, 80, 90, 100\<close>: the report of the last finished asset and the
  light phase both emit 70.
\<close>

theorem progress_is_not_strictly_increasing:
  "\<not> sorted_wrt (<)
       (map fst (loadingCalls (initialize sampleHost ''assets/project.json'' freshPage)))"
  using sampleRun by (simp add: sampleRun_initialize)

text \<open>
  Claim C4, amended. In a run of \<^verbatim>\<open>initialize\<close> in which nothing is thrown, the percentages
  passed to \<^verbatim>\<open>updateLoadingProgress\<close> are 10, 20, 30, 40, 50, then
  \<open>50 + \<lfloor>20 * (total - remaining) / total\<rfloor>\<close> for each report \<open>(remaining, total)\<close> of the
  assets manager, then 70, 80, 90, 100. The last one is 100. They never decrease when
  the assets manager reports in order. They are not strictly increasing whenever the
  last report says that no task remains, as the last report of the engine does: then
  the report and the light phase both emit 70.
\<close>

theorem progress_values_of_a_full_run:
  assumes "initializeBody H projectFile s = (None, s')"
  shows "initialize H projectFile s = s' \<and>
         map fst (newCalls s s') =
           [10, 20, 30, 40, 50] @ map reportedPercent (reports (loadOfRun H s s')) @
           [70, 80, 90, 100] \<and>
         last (map fst (newCalls s s')) = 100 \<and>
         (reportsOrdered (reports (loadOfRun H s s')) \<longrightarrow>
            sorted (map fst (newCalls s s'))) \<and>
         (reports (loadOfRun H s s') \<noteq> [] \<and>
          fst (last (reports (loadOfRun H s s'))) = 0 \<and>
          0 < snd (last (reports (loadOfRun H s s'))) \<longrightarrow>
            \<not> sorted_wrt (<) (map fst (newCalls s s')))"
proof -
  let ?rs = "reports (loadOfRun H s s')"
  have percents: "map fst (newCalls s s') =
      [10, 20, 30, 40, 50] @ map reportedPercent ?rs @ [70, 80, 90, 100]"
    by (simp add: newCalls_def initializeBody_calls [OF assms] comp_def)
  have "initialize H projectFile s = s'"
    using assms by (simp add: initialize_def)
  moreover have "last (map fst (newCalls s s')) = 100"
    unfolding percents by simp
  moreover have "sorted (map fst (newCalls s s'))" if "reportsOrdered ?rs"
    unfolding percents using that by (rule sorted_percentages)
  moreover have "\<not> sorted_wrt (<) (map fst (newCalls s s'))"
    if "?rs \<noteq> [] \<and> fst (last ?rs) = 0 \<and> 0 < snd (last ?rs)"
    unfolding percents using that by (intro repeated_percentage) simp_all
  ultimately show ?thesis
    using percents by blast
qed

theorem progress_values_witness:
  "map fst (newCalls freshPage (initialize sampleHost ''assets/project.json'' freshPage)) =
     [10, 20, 30, 40, 50, 70, 70, 80, 90, 100] \<and>
   sorted (map fst (newCalls freshPage
       (initialize sampleHost ''assets/project.json'' freshPage))) \<and>
   last (map fst (newCalls freshPage
       (initialize sampleHost ''assets/project.json'' freshPage))) = 100 \<and>
   \<not> sorted_wrt (<) (map fst (newCalls freshPage
       (initialize sampleHost ''assets/project.json'' freshPage)))"
proof -
  let ?s' = "snd (initializeBody sampleHost ''assets/project.json'' freshPage)"
  have complete: "initializeBody sampleHost ''assets/project.json'' freshPage = (None, ?s')"
    using sampleRun
    by (cases "initializeBody sampleHost ''assets/project.json'' freshPage") simp
  have "reports (loadOfRun sampleHost freshPage ?s') = engineReports 1"
    using sampleRun by (simp add: loadOfRun_def sampleHost_def reports_engineCalls)
  then have rs: "reports (loadOfRun sampleHost freshPage ?s') = [(0, Suc 0)]"
    by (simp add: engineReports_def)
  have ordered: "reportsOrdered [(0, Suc 0)]"
    by (simp add: reportsOrdered_def fractionDone_def)
  have percent: "reportedPercent (0, Suc 0) = 70"
    by (simp add: reportedPercent_def)
  from progress_values_of_a_full_run [OF complete] show ?thesis
    by (simp add: rs ordered percent)
qed

section \<open>A model file that cannot be loaded\<close>

text \<open>The handlers log the failure of the task, the failure as the assets manager reports
  it, and the end of the load (the report of the failed task puts 70 on the loading
  screen) before the application reports the rejected task, which has no message.\<close>

lemma brokenModelRun_console:
  "console (initialize brokenModelHost ''assets/project.json'' freshPage) =
     [ConsoleLog ''Creating scene'',
      ConsoleLog ''Loading model: assets/room.glb'',
      ConsoleError ''[ERROR] Failed to load model: model_0 - not found'',
      ConsoleError ''[ERROR] Error loading asset: undefined'',
      ConsoleLog ''All assets loaded'',
      ConsoleError ''Initialization error: undefined'']"
  by (simp add: initialize_def initializeBody_def stmt_def loadProject_def loadJSON_def
        sampleHost_def brokenModelHost_def hostStep_def Scene_initialize_def runPhase_def
        Scene_loadAssets_def firstScene_def sampleProject_def AssetManager_loadAssets_def
        glbAssets_def addAssetTask_def addModelTask_def awaitLoad_def
        AssetManager_onProgress_def assetProgress_def AssetManager_onFinish_def
        meshTask_onError_def AssetManager_onTaskError_def render_def freshPage_def
        readSettings_def Let_def log_def)

lemma brokenModelRun_calls:
  "loadingCalls (initialize brokenModelHost ''assets/project.json'' freshPage) =
     [(10, ''Loading project configuration...''), (20, ''Creating engine...''),
      (30, ''Creating scene...''), (40, ''Setting up camera...''),
      (50, ''Loading assets...''), (70, ''Loading assets...''), (0, ''Error: undefined'')]"
  by (simp add: initialize_def initializeBody_def stmt_def loadProject_def loadJSON_def
        sampleHost_def brokenModelHost_def hostStep_def Scene_initialize_def runPhase_def
        Scene_loadAssets_def firstScene_def sampleProject_def AssetManager_loadAssets_def
        glbAssets_def addAssetTask_def addModelTask_def awaitLoad_def
        AssetManager_onProgress_def assetProgress_def AssetManager_onFinish_def
        meshTask_onError_def AssetManager_onTaskError_def freshPage_def
        readSettings_def Let_def)

end
